theory Spec2Isabelle
  imports Main
begin

section \<open>The IR model\<close>

text \<open>
  The pass of \<^verbatim>\<open>bufferize_pass.cc\<close> works on a tree of operations: an operation has a
  name (dialect and mnemonic), operand values, result types, attributes and regions; a
  region is a list of blocks; a block has typed arguments and a list of operations.
\<close>

datatype dialect =
    BuiltinDialect
  | StandardOpsDialect
  | SCFDialect
  | TFFrameworkDialect
  | AffineDialect
  | ShapeDialect
  | LmhloDialect
  | MhloDialect
  | OtherDialect string

type_synonym OperationName = "dialect \<times> string"

datatype dimension = Fixed nat | Dynamic

datatype Type =
    RankedTensorType "dimension list" Type
  | UnrankedTensorType Type
  | MemRefType "dimension list" Type
  | UnrankedMemRefType Type
  | OtherType string

text \<open>A value is a result of an operation (owner, result number) or a block argument.\<close>

datatype Value =
    OpResult nat nat Type
  | BlockArgument nat nat Type

fun getType :: "Value \<Rightarrow> Type" where
  "getType (OpResult owner i t) = t"
| "getType (BlockArgument owner i t) = t"

text \<open>
  \<open>typeAttr\<close> is the function type (inputs, results) that a \<^verbatim>\<open>FuncOp\<close> carries as its
  \<^verbatim>\<open>type\<close> attribute; other operations have none.
\<close>

datatype Operation =
  Operation (opId: nat) (getName: OperationName) (getOperands: "Value list")
    (getResultTypes: "Type list") (typeAttr: "(Type list \<times> Type list) option")
    (getRegions: "Block list list")
and Block =
  Block (blockId: nat) (getArgumentTypes: "Type list") (getOperations: "Operation list")

definition getOperandTypes :: "Operation \<Rightarrow> Type list" where
  "getOperandTypes op = map getType (getOperands op)"

definition getResults :: "Operation \<Rightarrow> Value list" where
  "getResults op =
     map (\<lambda>i. OpResult (opId op) i (getResultTypes op ! i)) [0 ..< length (getResultTypes op)]"

text \<open>\<^verbatim>\<open>Value::getDefiningOp\<close>: the owner of an operation result, null for a block argument.\<close>

fun getDefiningOp :: "Value \<Rightarrow> nat option" where
  "getDefiningOp (OpResult owner i t) = Some owner"
| "getDefiningOp (BlockArgument owner i t) = None"

fun isaTensorType :: "Type \<Rightarrow> bool" where
  "isaTensorType (RankedTensorType s e) = True"
| "isaTensorType (UnrankedTensorType e) = True"
| "isaTensorType t = False"

fun isaUnrankedTensorType :: "Type \<Rightarrow> bool" where
  "isaUnrankedTensorType (UnrankedTensorType e) = True"
| "isaUnrankedTensorType t = False"

subsection \<open>Operation names used by the pass\<close>

definition ModuleOp :: OperationName where "ModuleOp = (BuiltinDialect, ''module'')"
definition ModuleTerminatorOp :: OperationName where
  "ModuleTerminatorOp = (BuiltinDialect, ''module_terminator'')"
definition FuncOp :: OperationName where "FuncOp = (BuiltinDialect, ''func'')"
definition DynamicTensorFromElementsOp :: OperationName where
  "DynamicTensorFromElementsOp = (StandardOpsDialect, ''dynamic_tensor_from_elements'')"
definition ExtractElementOp :: OperationName where
  "ExtractElementOp = (StandardOpsDialect, ''extract_element'')"
definition TensorFromElementsOp :: OperationName where
  "TensorFromElementsOp = (StandardOpsDialect, ''tensor_from_elements'')"
definition TensorCastOp :: OperationName where
  "TensorCastOp = (StandardOpsDialect, ''tensor_cast'')"
definition TensorLoadOp :: OperationName where
  "TensorLoadOp = (StandardOpsDialect, ''tensor_load'')"
definition TensorToMemrefOp :: OperationName where
  "TensorToMemrefOp = (StandardOpsDialect, ''tensor_to_memref'')"
definition TensorStoreOp :: OperationName where
  "TensorStoreOp = (StandardOpsDialect, ''tensor_store'')"
definition ConstantOp :: OperationName where "ConstantOp = (StandardOpsDialect, ''constant'')"
definition SelectOp :: OperationName where "SelectOp = (StandardOpsDialect, ''select'')"
definition CallOp :: OperationName where "CallOp = (StandardOpsDialect, ''call'')"
definition DimOp :: OperationName where "DimOp = (StandardOpsDialect, ''dim'')"
definition RankOp :: OperationName where "RankOp = (StandardOpsDialect, ''rank'')"
definition ReturnOp :: OperationName where "ReturnOp = (StandardOpsDialect, ''return'')"

text \<open>The operand accessors of \<^verbatim>\<open>TensorStoreOp\<close>: operand 0 and operand 1.\<close>

definition tensor :: "Operation \<Rightarrow> Value option" where
  "tensor op = (case getOperands op of t # rest \<Rightarrow> Some t | [] \<Rightarrow> None)"

definition memref :: "Operation \<Rightarrow> Value option" where
  "memref op = (case getOperands op of t # m # rest \<Rightarrow> Some m | _ \<Rightarrow> None)"

section \<open>The type converter\<close>

text \<open>
  Modelled from the spec: \<^verbatim>\<open>BufferizeTypeConverter\<close> is declared in
  \<^verbatim>\<open>mlir/Transforms/Bufferize.h\<close>, which is not among the sources. Section 4.1 of the
  specification: \<^verbatim>\<open>convertType\<close> maps a ranked or unranked value-array type to the buffer
  type with the same element type and shape and is the identity elsewhere;
  \<^verbatim>\<open>isLegal\<close> holds iff every type of the input is left unchanged by
  \<^verbatim>\<open>convertType\<close>. For a region, section 4.2 asks for "every type appearing inside" the
  body: the block argument types and the operand and result types of every operation,
  at any depth.
\<close>

fun convertType :: "Type \<Rightarrow> Type" where
  "convertType (RankedTensorType s e) = MemRefType s e"
| "convertType (UnrankedTensorType e) = UnrankedMemRefType e"
| "convertType t = t"

definition isLegal :: "Type \<Rightarrow> bool" where
  "isLegal t = (convertType t = t)"

definition isLegalTypes :: "Type list \<Rightarrow> bool" where
  "isLegalTypes ts = list_all isLegal ts"

primrec typesInOperation :: "Operation \<Rightarrow> Type list"
  and typesInBlock :: "Block \<Rightarrow> Type list" where
  "typesInOperation (Operation i n os rs a regs) =
     map getType os @ rs @ concat (map concat (map (map typesInBlock) regs))"
| "typesInBlock (Block b args ops) = args @ concat (map typesInOperation ops)"

definition isLegalRegion :: "Block list \<Rightarrow> bool" where
  "isLegalRegion r = isLegalTypes (concat (map typesInBlock r))"

section \<open>The legality target\<close>

text \<open>
  Modelled from the spec: \<^verbatim>\<open>ConversionTarget\<close> is declared in
  \<^verbatim>\<open>mlir/Transforms/DialectConversion.h\<close>, which is not among the sources. Sections 3
  and 4.2 of the specification: a mapping from operation kind to a dynamic legality rule,
  plus the kinds and dialects marked illegal and those marked legal; an operation is
  classified by (1) the dynamic rule of its kind, (2) an illegal kind or dialect,
  (3) a legal kind or dialect, (4) Unknown.
\<close>

datatype Legality = Legal | Illegal | Unknown

record ConversionTarget =
  dynamicLegality :: "OperationName \<rightharpoonup> (Operation \<Rightarrow> bool)"
  illegalOps :: "OperationName list"
  illegalDialects :: "dialect list"
  legalOps :: "OperationName list"
  legalDialects :: "dialect list"

definition newTarget :: ConversionTarget where
  "newTarget = \<lparr>dynamicLegality = Map.empty, illegalOps = [], illegalDialects = [],
     legalOps = [], legalDialects = []\<rparr>"

definition addLegalDialect :: "dialect list \<Rightarrow> ConversionTarget \<Rightarrow> ConversionTarget" where
  "addLegalDialect ds target = target\<lparr>legalDialects := legalDialects target @ ds\<rparr>"

definition addIllegalDialect :: "dialect list \<Rightarrow> ConversionTarget \<Rightarrow> ConversionTarget" where
  "addIllegalDialect ds target = target\<lparr>illegalDialects := illegalDialects target @ ds\<rparr>"

definition addLegalOp :: "OperationName list \<Rightarrow> ConversionTarget \<Rightarrow> ConversionTarget" where
  "addLegalOp ns target = target\<lparr>legalOps := legalOps target @ ns\<rparr>"

definition addIllegalOp :: "OperationName list \<Rightarrow> ConversionTarget \<Rightarrow> ConversionTarget" where
  "addIllegalOp ns target = target\<lparr>illegalOps := illegalOps target @ ns\<rparr>"

text \<open>Registering a rule for a kind that already has one replaces it (a mapping).\<close>

fun addDynamicallyLegalOp ::
  "OperationName list \<Rightarrow> (Operation \<Rightarrow> bool) \<Rightarrow> ConversionTarget \<Rightarrow> ConversionTarget" where
  "addDynamicallyLegalOp [] callback target = target"
| "addDynamicallyLegalOp (n # ns) callback target =
     addDynamicallyLegalOp ns callback
       (target\<lparr>dynamicLegality := (dynamicLegality target)(n \<mapsto> callback)\<rparr>)"

definition legality :: "ConversionTarget \<Rightarrow> Operation \<Rightarrow> Legality" where
  "legality target op =
     (case dynamicLegality target (getName op) of
        Some callback \<Rightarrow> if callback op then Legal else Illegal
      | None \<Rightarrow>
          if getName op \<in> set (illegalOps target) \<or> fst (getName op) \<in> set (illegalDialects target)
          then Illegal
          else if getName op \<in> set (legalOps target) \<or> fst (getName op) \<in> set (legalDialects target)
          then Legal
          else Unknown)"

subsection \<open>The legality rules of \<^verbatim>\<open>BufferizePass::runOnOperation\<close>\<close>

text \<open>Lines 121-124: no result type is a tensor type.\<close>

definition noTensorResults :: "Operation \<Rightarrow> bool" where
  "noTensorResults op = (\<not> list_ex isaTensorType (getResultTypes op))"

text \<open>
  Lines 125-127: the stored tensor is not unranked. (An operation without operands is not
  a \<^verbatim>\<open>TensorStoreOp\<close>; the rule gives False there.)
\<close>

definition tensorStoreIsLegal :: "Operation \<Rightarrow> bool" where
  "tensorStoreIsLegal op =
     (case tensor op of Some t \<Rightarrow> \<not> isaUnrankedTensorType (getType t) | None \<Rightarrow> False)"

text \<open>Lines 131-134.\<close>

definition typesAreLegal :: "Operation \<Rightarrow> bool" where
  "typesAreLegal op = (isLegalTypes (getOperandTypes op) \<and> isLegalTypes (getResultTypes op))"

text \<open>
  Lines 135-140: inputs and results of the function type, and the body (the first
  region). (An operation without function type or region is not a \<^verbatim>\<open>FuncOp\<close>; the
  rule gives False there.)
\<close>

definition funcIsLegal :: "Operation \<Rightarrow> bool" where
  "funcIsLegal op =
     (case (typeAttr op, getRegions op) of
        (Some (inputs, results), body # rest) \<Rightarrow>
          isLegalTypes inputs \<and> isLegalTypes results \<and> isLegalRegion body
      | _ \<Rightarrow> False)"

text \<open>
  \<^verbatim>\<open>populateShapeStructuralTypeConversionsAndLegality\<close> and
  \<^verbatim>\<open>scf::populateSCFStructuralTypeConversionsAndLegality\<close> (lines 152-155) are defined
  outside the sources and receive the target. Their legality half is a parameter here:
  the dynamic rules each registers for operations of its own dialect, by mnemonic.
\<close>

fun populateLegality ::
  "dialect \<Rightarrow> (string \<times> (Operation \<Rightarrow> bool)) list \<Rightarrow> ConversionTarget \<Rightarrow> ConversionTarget" where
  "populateLegality d [] target = target"
| "populateLegality d ((m, callback) # rules) target =
     populateLegality d rules (addDynamicallyLegalOp [(d, m)] callback target)"

text \<open>Lines 106-142 and 152-155, in the order of the source.\<close>

definition configureTarget ::
  "bool \<Rightarrow> (string \<times> (Operation \<Rightarrow> bool)) list \<Rightarrow> (string \<times> (Operation \<Rightarrow> bool)) list
     \<Rightarrow> ConversionTarget" where
  "configureTarget allow_partial_bufferization shapeLegality scfLegality =
     (let target = newTarget;
          target = addLegalDialect [SCFDialect, StandardOpsDialect, TFFrameworkDialect,
                     AffineDialect, ShapeDialect, LmhloDialect] target;
          target = addLegalOp [ModuleOp, ModuleTerminatorOp] target;
          target = addIllegalDialect [MhloDialect] target;
          target = addIllegalOp [DynamicTensorFromElementsOp, ExtractElementOp,
                     TensorFromElementsOp, TensorCastOp] target;
          target = (if \<not> allow_partial_bufferization
                    then addIllegalOp [TensorLoadOp, TensorToMemrefOp] target else target);
          target = addDynamicallyLegalOp [ConstantOp, SelectOp] noTensorResults target;
          target = addDynamicallyLegalOp [TensorStoreOp] tensorStoreIsLegal target;
          target = addDynamicallyLegalOp [FuncOp] funcIsLegal target;
          target = addDynamicallyLegalOp [CallOp, ConstantOp, DimOp, RankOp, SelectOp, ReturnOp]
                     typesAreLegal target;
          target = populateLegality ShapeDialect shapeLegality target;
          target = populateLegality SCFDialect scfLegality target
      in target)"

section \<open>Walking and editing the operation tree\<close>

text \<open>Pre-order over the operation tree: an operation, then its regions, then its siblings.\<close>

primrec walk :: "Operation \<Rightarrow> Operation list"
  and walkBlock :: "Block \<Rightarrow> Operation list" where
  "walk (Operation i n os rs a regs) =
     Operation i n os rs a regs # concat (map concat (map (map walkBlock) regs))"
| "walkBlock (Block b args ops) = concat (map walk ops)"

definition findOp :: "nat \<Rightarrow> Operation \<Rightarrow> Operation option" where
  "findOp k root = find (\<lambda>x. opId x = k) (walk root)"

text \<open>The same walk, leaving out the operations with the given ids and all they contain.\<close>

primrec walkWithout :: "nat list \<Rightarrow> Operation \<Rightarrow> Operation list"
  and walkWithoutBlock :: "nat list \<Rightarrow> Block \<Rightarrow> Operation list" where
  "walkWithout ks (Operation i n os rs a regs) =
     Operation i n os rs a regs # concat (map concat (map (map (walkWithoutBlock ks)) regs))"
| "walkWithoutBlock ks (Block b args ops) =
     concat (map (\<lambda>x. if opId x \<in> set ks then [] else walkWithout ks x) ops)"

primrec mapOperands :: "(Value \<Rightarrow> Value) \<Rightarrow> Operation \<Rightarrow> Operation"
  and mapOperandsBlock :: "(Value \<Rightarrow> Value) \<Rightarrow> Block \<Rightarrow> Block" where
  "mapOperands f (Operation i n os rs a regs) =
     Operation i n (map f os) rs a (map (map (mapOperandsBlock f)) regs)"
| "mapOperandsBlock f (Block b args ops) = Block b args (map (mapOperands f) ops)"

text \<open>Erasing an operation removes it, with everything nested in it, from its block.\<close>

primrec eraseOp :: "nat \<Rightarrow> Operation \<Rightarrow> Operation"
  and eraseOpBlock :: "nat \<Rightarrow> Block \<Rightarrow> Block" where
  "eraseOp k (Operation i n os rs a regs) =
     Operation i n os rs a (map (map (eraseOpBlock k)) regs)"
| "eraseOpBlock k (Block b args ops) =
     Block b args (filter (\<lambda>x. opId x \<noteq> k) (map (eraseOp k) ops))"

primrec insertBefore :: "nat \<Rightarrow> Operation \<Rightarrow> Operation \<Rightarrow> Operation"
  and insertBeforeBlock :: "nat \<Rightarrow> Operation \<Rightarrow> Block \<Rightarrow> Block" where
  "insertBefore k new (Operation i n os rs a regs) =
     Operation i n os rs a (map (map (insertBeforeBlock k new)) regs)"
| "insertBeforeBlock k new (Block b args ops) =
     Block b args
       (concat (map (\<lambda>x. if opId x = k then [new, x] else [x]) (map (insertBefore k new) ops)))"

definition replaceValue :: "Value list \<Rightarrow> Value list \<Rightarrow> Value \<Rightarrow> Value" where
  "replaceValue olds news v = (case map_of (zip olds news) v of Some v' \<Rightarrow> v' | None \<Rightarrow> v)"

section \<open>The rewriter\<close>

text \<open>
  Modelled from the spec: \<^verbatim>\<open>ConversionPatternRewriter\<close> is declared in
  \<^verbatim>\<open>mlir/Transforms/DialectConversion.h\<close>, which is not among the sources. Sections 4.4
  and 9 of the specification: a pattern runs in a transactional scope, its mutations are
  recorded in a log, committed when the pattern succeeds and dropped otherwise.
  \<^verbatim>\<open>replaceOp\<close> takes as many replacement values as the operation has results; on commit
  every use of a result, anywhere in the module, is rewired to its replacement and the
  operation is destroyed.
\<close>

text \<open>
  The ways a rewrite can abort: a null operation pointer is dereferenced; an assertion of
  the library fails (an operand index out of range, a wrong number of replacement
  values); a value names an operation that is not in the module (an ill-formed input).
\<close>

datatype error = NullDereference | AssertionFailure | DanglingReference

datatype LogicalResult = success | failure

datatype rewrite =
    ReplaceOp nat "Value list" "Value list"
  | InsertOp nat Operation

record ConversionPatternRewriter =
  module :: Operation
  log :: "rewrite list"

definition replaceOp ::
  "nat \<Rightarrow> Value list \<Rightarrow> ConversionPatternRewriter \<Rightarrow> error + ConversionPatternRewriter" where
  "replaceOp k newValues rewriter =
     (case findOp k (module rewriter) of
        None \<Rightarrow> Inl DanglingReference
      | Some op \<Rightarrow>
          if length newValues \<noteq> length (getResultTypes op) then Inl AssertionFailure
          else Inr (rewriter\<lparr>log := log rewriter @ [ReplaceOp k (getResults op) newValues]\<rparr>))"

fun createdIds :: "rewrite list \<Rightarrow> nat list" where
  "createdIds [] = []"
| "createdIds (InsertOp k new # rest) = opId new # createdIds rest"
| "createdIds (ReplaceOp k olds news # rest) = createdIds rest"

definition freshId :: "ConversionPatternRewriter \<Rightarrow> nat" where
  "freshId rewriter =
     Suc (fold max (map opId (walk (module rewriter)) @ createdIds (log rewriter)) 0)"

text \<open>
  \<^verbatim>\<open>replaceOpWithNewOp<OpT>(op, operands)\<close>: a new operation (without results, as the
  one use in the source creates a \<^verbatim>\<open>ReturnOp\<close>) is created in front of \<open>op\<close>, which is
  then replaced by the results of the new one.
\<close>

definition replaceOpWithNewOp ::
  "Operation \<Rightarrow> OperationName \<Rightarrow> Value list \<Rightarrow> ConversionPatternRewriter
     \<Rightarrow> error + ConversionPatternRewriter" where
  "replaceOpWithNewOp op name operands rewriter =
     (let new = Operation (freshId rewriter) name operands [] None []
      in replaceOp (opId op) (getResults new)
           (rewriter\<lparr>log := log rewriter @ [InsertOp (opId op) new]\<rparr>))"

fun applyRewrite :: "rewrite \<Rightarrow> Operation \<Rightarrow> Operation" where
  "applyRewrite (ReplaceOp k olds news) root = eraseOp k (mapOperands (replaceValue olds news) root)"
| "applyRewrite (InsertOp k new) root = insertBefore k new root"

definition applyRewrites :: "ConversionPatternRewriter \<Rightarrow> Operation" where
  "applyRewrites rewriter = fold applyRewrite (log rewriter) (module rewriter)"

section \<open>The patterns of the pass\<close>

text \<open>
  Lines 64-70. \<^verbatim>\<open>op.memref().getDefiningOp()\<close> is null for a block argument and
  \<^verbatim>\<open>replaceOp\<close> dereferences it; the \<open>operands\<close> argument is not used.
\<close>

definition UnrankedTensorStoreTestOnlyPattern_matchAndRewrite ::
  "Operation \<Rightarrow> Value list \<Rightarrow> ConversionPatternRewriter
     \<Rightarrow> error + LogicalResult \<times> ConversionPatternRewriter" where
  "UnrankedTensorStoreTestOnlyPattern_matchAndRewrite op operands rewriter =
     (case (memref op, tensor op) of
        (Some m, Some t) \<Rightarrow>
          (case getDefiningOp m of
             None \<Rightarrow> Inl NullDereference
           | Some owner \<Rightarrow>
               (case replaceOp owner [t] rewriter of
                  Inl e \<Rightarrow> Inl e
                | Inr rewriter1 \<Rightarrow>
                    (case replaceOp (opId op) [] rewriter1 of
                       Inl e \<Rightarrow> Inl e
                     | Inr rewriter2 \<Rightarrow> Inr (success, rewriter2))))
      | _ \<Rightarrow> Inl AssertionFailure)"

text \<open>Lines 81-87.\<close>

definition ReturnOpTypeConversionPattern_matchAndRewrite ::
  "Operation \<Rightarrow> Value list \<Rightarrow> ConversionPatternRewriter
     \<Rightarrow> error + LogicalResult \<times> ConversionPatternRewriter" where
  "ReturnOpTypeConversionPattern_matchAndRewrite op operands rewriter =
     (case replaceOpWithNewOp op ReturnOp operands rewriter of
        Inl e \<Rightarrow> Inl e
      | Inr rewriter1 \<Rightarrow> Inr (success, rewriter1))"

text \<open>
  A registered pattern: the operation kind it is rooted at, its benefit, the type
  converter it was constructed with (line 156 passes none, line 157 passes
  \<open>converter\<close>) and its rewrite function.
\<close>

record ConversionPattern =
  rootKind :: OperationName
  benefit :: nat
  typeConverter :: "(Type \<Rightarrow> Type) option"
  matchAndRewrite ::
    "Operation \<Rightarrow> Value list \<Rightarrow> ConversionPatternRewriter
       \<Rightarrow> error + LogicalResult \<times> ConversionPatternRewriter"

definition UnrankedTensorStoreTestOnlyPattern :: ConversionPattern where
  "UnrankedTensorStoreTestOnlyPattern =
     \<lparr>rootKind = TensorStoreOp, benefit = 1, typeConverter = None,
      matchAndRewrite = UnrankedTensorStoreTestOnlyPattern_matchAndRewrite\<rparr>"

definition ReturnOpTypeConversionPattern :: ConversionPattern where
  "ReturnOpTypeConversionPattern =
     \<lparr>rootKind = ReturnOp, benefit = 1, typeConverter = Some convertType,
      matchAndRewrite = ReturnOpTypeConversionPattern_matchAndRewrite\<rparr>"

text \<open>
  The pattern catalogues of lines 145-155 are defined outside the sources; each is a
  parameter, as are the legality rules the last two register on the target.
\<close>

record Upstream =
  HLOToLHLOConversionPattern :: "ConversionPattern list"
  FuncOpTypeConversionPattern :: "ConversionPattern list"
  CallOpTypeConversionPattern :: "ConversionPattern list"
  StdBufferizePatterns :: "ConversionPattern list"
  EliminateBufferizeMaterializationsPatterns :: "ConversionPattern list"
  ExtraStdBufferizePattern :: "ConversionPattern list"
  ShapeStructuralTypeConversions :: "ConversionPattern list"
  ShapeLegality :: "(string \<times> (Operation \<Rightarrow> bool)) list"
  SCFStructuralTypeConversions :: "ConversionPattern list"
  SCFLegality :: "(string \<times> (Operation \<Rightarrow> bool)) list"

text \<open>Lines 144-157, in registration order.\<close>

definition populatePatterns :: "Upstream \<Rightarrow> ConversionPattern list" where
  "populatePatterns upstream =
     HLOToLHLOConversionPattern upstream @ FuncOpTypeConversionPattern upstream
     @ CallOpTypeConversionPattern upstream @ StdBufferizePatterns upstream
     @ EliminateBufferizeMaterializationsPatterns upstream @ ExtraStdBufferizePattern upstream
     @ ShapeStructuralTypeConversions upstream @ SCFStructuralTypeConversions upstream
     @ [UnrankedTensorStoreTestOnlyPattern, ReturnOpTypeConversionPattern]"

text \<open>The catalogues of lines 145-155 alone.\<close>

definition upstreamPatterns :: "Upstream \<Rightarrow> ConversionPattern list" where
  "upstreamPatterns upstream =
     HLOToLHLOConversionPattern upstream @ FuncOpTypeConversionPattern upstream
     @ CallOpTypeConversionPattern upstream @ StdBufferizePatterns upstream
     @ EliminateBufferizeMaterializationsPatterns upstream @ ExtraStdBufferizePattern upstream
     @ ShapeStructuralTypeConversions upstream @ SCFStructuralTypeConversions upstream"

section \<open>The conversion driver\<close>

text \<open>
  Modelled from the spec: \<^verbatim>\<open>applyPartialConversion\<close> and \<^verbatim>\<open>applyFullConversion\<close> are
  declared in \<^verbatim>\<open>mlir/Transforms/DialectConversion.h\<close>, which is not among the sources.
  Section 4.4 of the specification: every operation of the module is visited in pre-order;
  a Legal operation is left unchanged; otherwise the patterns of its kind are tried in
  decreasing benefit, ties in registration order, each on the converted operands and in a
  transactional scope; the first success is committed, a "no match" is rolled back; sweeps
  are repeated until one changes nothing. Partial mode then reports success; full mode
  reports failure iff an operation is still not Legal, without rolling the module back.

  Operand conversion (sections 4.1, 4.2 and the glossary): an operand whose type the
  pattern's type converter would change is replaced by the result of an inserted
  "materialize a buffer view of a value-array" operation (\<^verbatim>\<open>TensorToMemrefOp\<close>); a
  pattern constructed without a type converter expects no type and is given the operands
  as they are. On commit a replacement value is used as it is (section 8 has the uses of
  a collapsed store "reference the stored value array directly"); the casts that section
  4.4 inserts for consumers expecting the old type are not part of the model.
\<close>

fun materializeOperands ::
  "(Type \<Rightarrow> Type) \<Rightarrow> nat \<Rightarrow> Value list \<Rightarrow> ConversionPatternRewriter
     \<Rightarrow> Value list \<times> ConversionPatternRewriter" where
  "materializeOperands conv k [] rewriter = ([], rewriter)"
| "materializeOperands conv k (v # vs) rewriter =
     (if conv (getType v) = getType v
      then (case materializeOperands conv k vs rewriter of
              (vs', rewriter') \<Rightarrow> (v # vs', rewriter'))
      else (let cast = Operation (freshId rewriter) TensorToMemrefOp [v] [conv (getType v)] None []
            in case materializeOperands conv k vs
                      (rewriter\<lparr>log := log rewriter @ [InsertOp k cast]\<rparr>) of
                 (vs', rewriter') \<Rightarrow> (OpResult (opId cast) 0 (conv (getType v)) # vs', rewriter')))"

definition remapOperands ::
  "ConversionPattern \<Rightarrow> Operation \<Rightarrow> ConversionPatternRewriter
     \<Rightarrow> Value list \<times> ConversionPatternRewriter" where
  "remapOperands pattern op rewriter =
     (case typeConverter pattern of
        None \<Rightarrow> (getOperands op, rewriter)
      | Some conv \<Rightarrow> materializeOperands conv (opId op) (getOperands op) rewriter)"

text \<open>Steps 2 to 4: the result is the committed module, or None when no pattern succeeded.\<close>

fun tryPatterns ::
  "ConversionPattern list \<Rightarrow> Operation \<Rightarrow> Operation \<Rightarrow> error + Operation option" where
  "tryPatterns [] root op = Inr None"
| "tryPatterns (pattern # rest) root op =
     (if rootKind pattern \<noteq> getName op then tryPatterns rest root op
      else (case remapOperands pattern op \<lparr>module = root, log = []\<rparr> of
              (operands, rewriter) \<Rightarrow>
                (case matchAndRewrite pattern op operands rewriter of
                   Inl e \<Rightarrow> Inl e
                 | Inr (success, rewriter') \<Rightarrow> Inr (Some (applyRewrites rewriter'))
                 | Inr (failure, rewriter') \<Rightarrow> tryPatterns rest root op)))"

definition byBenefit :: "ConversionPattern list \<Rightarrow> ConversionPattern list" where
  "byBenefit patterns = sort_key (\<lambda>pattern. - int (benefit pattern)) patterns"

definition legalize ::
  "ConversionTarget \<Rightarrow> ConversionPattern list \<Rightarrow> Operation \<Rightarrow> Operation
     \<Rightarrow> error + Operation option" where
  "legalize target patterns root op =
     (if legality target op = Legal then Inr None
      else tryPatterns (byBenefit patterns) root op)"

text \<open>
  One sweep over the worklist; an operation erased earlier in the sweep is skipped. The
  flag tells whether anything was rewritten.
\<close>

fun sweep ::
  "ConversionTarget \<Rightarrow> ConversionPattern list \<Rightarrow> nat list \<Rightarrow> Operation \<Rightarrow> bool
     \<Rightarrow> error + Operation \<times> bool" where
  "sweep target patterns [] root changed = Inr (root, changed)"
| "sweep target patterns (k # worklist) root changed =
     (case findOp k root of
        None \<Rightarrow> sweep target patterns worklist root changed
      | Some op \<Rightarrow>
          (case legalize target patterns root op of
             Inl e \<Rightarrow> Inl e
           | Inr None \<Rightarrow> sweep target patterns worklist root changed
           | Inr (Some root') \<Rightarrow> sweep target patterns worklist root' True))"

text \<open>
  Sweeps until a fixpoint. The fuel bounds the number of sweeps: None means that the
  fixpoint was not reached within it.
\<close>

fun fixpoint ::
  "nat \<Rightarrow> ConversionTarget \<Rightarrow> ConversionPattern list \<Rightarrow> Operation
     \<Rightarrow> (error + Operation) option" where
  "fixpoint 0 target patterns root = None"
| "fixpoint (Suc fuel) target patterns root =
     (case sweep target patterns (map opId (walk root)) root False of
        Inl e \<Rightarrow> Some (Inl e)
      | Inr (root', changed) \<Rightarrow>
          if changed then fixpoint fuel target patterns root' else Some (Inr root'))"

definition applyPartialConversion ::
  "nat \<Rightarrow> Operation \<Rightarrow> ConversionTarget \<Rightarrow> ConversionPattern list
     \<Rightarrow> (error + LogicalResult \<times> Operation) option" where
  "applyPartialConversion fuel root target patterns =
     (case fixpoint fuel target patterns root of
        None \<Rightarrow> None
      | Some (Inl e) \<Rightarrow> Some (Inl e)
      | Some (Inr root') \<Rightarrow> Some (Inr (success, root')))"

definition applyFullConversion ::
  "nat \<Rightarrow> Operation \<Rightarrow> ConversionTarget \<Rightarrow> ConversionPattern list
     \<Rightarrow> (error + LogicalResult \<times> Operation) option" where
  "applyFullConversion fuel root target patterns =
     (case fixpoint fuel target patterns root of
        None \<Rightarrow> None
      | Some (Inl e) \<Rightarrow> Some (Inl e)
      | Some (Inr root') \<Rightarrow>
          Some (Inr (if list_all (\<lambda>op. legality target op = Legal) (walk root')
                     then success else failure, root')))"

section \<open>The pass\<close>

text \<open>
  Lines 104-170. The result is the module as the driver left it, with the flag that
  \<^verbatim>\<open>signalPassFailure\<close> sets.
\<close>

definition failed :: "LogicalResult \<Rightarrow> bool" where
  "failed r = (r = failure)"

definition runOnOperation ::
  "bool \<Rightarrow> Upstream \<Rightarrow> nat \<Rightarrow> Operation \<Rightarrow> (error + bool \<times> Operation) option" where
  "runOnOperation allow_partial_bufferization upstream fuel root =
     (let target = configureTarget allow_partial_bufferization
                     (ShapeLegality upstream) (SCFLegality upstream);
          patterns = populatePatterns upstream
      in if allow_partial_bufferization
         then (case applyPartialConversion fuel root target patterns of
                 None \<Rightarrow> None
               | Some (Inl e) \<Rightarrow> Some (Inl e)
               | Some (Inr (r, root')) \<Rightarrow> Some (Inr (failed r, root')))
         else (case applyFullConversion fuel root target patterns of
                 None \<Rightarrow> None
               | Some (Inl e) \<Rightarrow> Some (Inl e)
               | Some (Inr (r, root')) \<Rightarrow> Some (Inr (failed r, root'))))"

section \<open>What a run has rewritten\<close>

text \<open>
  Notions used to state what a run leaves of its input. A pattern \<open>recordsOnly\<close> when it
  acts through the rewriter alone: it adds to the log and leaves the module to the commit,
  as \<^verbatim>\<open>replaceOp\<close> and \<^verbatim>\<open>replaceOpWithNewOp\<close> do. \<open>replacedIds\<close> are the
  operations that a log replaces. \<open>fired\<close> tells that a log is what a pattern has
  recorded when the driver tried it on an operation that is not Legal and it reported
  success. A pattern \<open>declines\<close> an operation when it is rooted at another kind or
  reports "no match" on it.
\<close>

fun replacedIds :: "rewrite list \<Rightarrow> nat list" where
  "replacedIds [] = []"
| "replacedIds (ReplaceOp k olds news # rest) = k # replacedIds rest"
| "replacedIds (InsertOp k new # rest) = replacedIds rest"

definition recordsOnly :: "ConversionPattern \<Rightarrow> bool" where
  "recordsOnly pattern =
     (\<forall>op operands rewriter r rewriter'.
        matchAndRewrite pattern op operands rewriter = Inr (r, rewriter')
          \<longrightarrow> module rewriter' = module rewriter)"

definition fired ::
  "ConversionTarget \<Rightarrow> ConversionPattern list \<Rightarrow> Operation \<Rightarrow> Operation \<Rightarrow> rewrite list \<Rightarrow> bool" where
  "fired target patterns root op lg =
     (legality target op \<noteq> Legal
      \<and> (\<exists>pattern \<in> set patterns. \<exists>operands rewriter rewriter'.
            rootKind pattern = getName op
          \<and> remapOperands pattern op \<lparr>module = root, log = []\<rparr> = (operands, rewriter)
          \<and> matchAndRewrite pattern op operands rewriter = Inr (success, rewriter')
          \<and> log rewriter' = lg))"

definition declines :: "ConversionPattern \<Rightarrow> Operation \<Rightarrow> Operation \<Rightarrow> bool" where
  "declines pattern root op =
     (rootKind pattern \<noteq> getName op
      \<or> (\<exists>rewriter'. matchAndRewrite pattern op
            (fst (remapOperands pattern op \<lparr>module = root, log = []\<rparr>))
            (snd (remapOperands pattern op \<lparr>module = root, log = []\<rparr>))
              = Inr (failure, rewriter')))"

text \<open>
  The commits of a run, as a step relation: the logs are those of patterns fired one after
  the other, each on an operation of the module that the commits before it have left, and
  \<open>root'\<close> is the module after the last.
\<close>

inductive commits ::
  "ConversionTarget \<Rightarrow> ConversionPattern list \<Rightarrow> Operation \<Rightarrow> rewrite list list \<Rightarrow> Operation
     \<Rightarrow> bool"
  for target patterns where
    commits_Nil: "commits target patterns root [] root"
  | commits_Cons:
      "findOp (opId op) root = Some op \<Longrightarrow> fired target patterns root op lg \<Longrightarrow>
       commits target patterns (fold applyRewrite lg root) logs root' \<Longrightarrow>
       commits target patterns root (lg # logs) root'"

section \<open>Operation signatures and example inputs\<close>

text \<open>
  The signatures of the two operation kinds of lines 121 and 141, declared with the
  Standard dialect (outside the sources): a \<^verbatim>\<open>ConstantOp\<close> has no operands; a
  \<^verbatim>\<open>SelectOp\<close> has a condition and two values whose type is the type of its one result,
  and its condition is a tensor (a mask) only when the result is one.
\<close>

definition hasConstantSignature :: "Operation \<Rightarrow> bool" where
  "hasConstantSignature op = (getOperands op = [])"

definition hasSelectSignature :: "Operation \<Rightarrow> bool" where
  "hasSelectSignature op =
     (case getOperands op of
        [c, x, y] \<Rightarrow>
          getResultTypes op = [getType x] \<and> getType y = getType x
          \<and> (isaTensorType (getType c) \<longrightarrow> isaTensorType (getType x))
      | _ \<Rightarrow> False)"

definition f32 :: Type where "f32 = OtherType ''f32''"

text \<open>No upstream pattern and no upstream legality rule.\<close>

definition noUpstream :: Upstream where
  "noUpstream = \<lparr>HLOToLHLOConversionPattern = [], FuncOpTypeConversionPattern = [],
     CallOpTypeConversionPattern = [], StdBufferizePatterns = [],
     EliminateBufferizeMaterializationsPatterns = [], ExtraStdBufferizePattern = [],
     ShapeStructuralTypeConversions = [], ShapeLegality = [],
     SCFStructuralTypeConversions = [], SCFLegality = []\<rparr>"

definition scalarConstant :: Operation where
  "scalarConstant = Operation 1 ConstantOp [] [OtherType ''i32''] None []"

definition tensorConstant :: Operation where
  "tensorConstant = Operation 1 ConstantOp [] [RankedTensorType [Fixed 4] f32] None []"

definition tensorSelect :: Operation where
  "tensorSelect =
     Operation 2 SelectOp
       [BlockArgument 0 0 (OtherType ''i1''), BlockArgument 0 1 (UnrankedTensorType f32),
        BlockArgument 0 2 (UnrankedTensorType f32)]
       [UnrankedTensorType f32] None []"

text \<open>A store of an unranked tensor into a function argument.\<close>

definition storeIntoArgument :: Operation where
  "storeIntoArgument =
     Operation 4 TensorStoreOp
       [OpResult 3 0 (UnrankedTensorType f32), BlockArgument 1 1 (UnrankedMemRefType f32)]
       [] None []"



definition illegalCall :: Operation where
  "illegalCall = Operation 5 CallOp
     [OpResult 3 0 (UnrankedTensorType f32), OpResult 2 0 (UnrankedMemRefType f32)] [] None []"

definition exampleModule :: Operation where
  "exampleModule = Operation 0 ModuleOp [] [] None [[Block 0 [] [
      Operation 1 FuncOp [] [] (Some ([MemRefType [Fixed 4] f32, UnrankedMemRefType f32], []))
        [[Block 1 [MemRefType [Fixed 4] f32, UnrankedMemRefType f32] [
         Operation 2 (StandardOpsDialect, ''memref_cast'')
           [BlockArgument 1 0 (MemRefType [Fixed 4] f32)] [UnrankedMemRefType f32] None [],
         Operation 3 TensorLoadOp [BlockArgument 1 1 (UnrankedMemRefType f32)]
           [UnrankedTensorType f32] None [],
         Operation 4 TensorStoreOp
           [OpResult 3 0 (UnrankedTensorType f32), OpResult 2 0 (UnrankedMemRefType f32)] [] None [],
         illegalCall,
         Operation 6 ReturnOp [] [] None []]]],
      Operation 7 ModuleTerminatorOp [] [] None []]]]"

definition illegalCallAfter :: Operation where
  "illegalCallAfter = Operation 5 CallOp
     [OpResult 3 0 (UnrankedTensorType f32), OpResult 3 0 (UnrankedTensorType f32)] [] None []"

definition exampleModuleAfter :: Operation where
  "exampleModuleAfter = Operation 0 ModuleOp [] [] None [[Block 0 [] [
      Operation 1 FuncOp [] [] (Some ([MemRefType [Fixed 4] f32, UnrankedMemRefType f32], []))
        [[Block 1 [MemRefType [Fixed 4] f32, UnrankedMemRefType f32] [
         Operation 3 TensorLoadOp [BlockArgument 1 1 (UnrankedMemRefType f32)]
           [UnrankedTensorType f32] None [],
         illegalCallAfter,
         Operation 6 ReturnOp [] [] None []]]],
      Operation 7 ModuleTerminatorOp [] [] None []]]]"

definition storeIntoArgumentModule :: Operation where
  "storeIntoArgumentModule = Operation 0 ModuleOp [] [] None [[Block 0 [] [
      Operation 1 FuncOp [] [] (Some ([UnrankedMemRefType f32, UnrankedMemRefType f32], []))
        [[Block 1 [UnrankedMemRefType f32, UnrankedMemRefType f32] [
         Operation 3 TensorLoadOp [BlockArgument 1 0 (UnrankedMemRefType f32)]
           [UnrankedTensorType f32] None [],
         storeIntoArgument,
         Operation 5 ReturnOp [] [] None []]]],
      Operation 6 ModuleTerminatorOp [] [] None []]]]"

definition otherUseModule :: Operation where
  "otherUseModule = Operation 0 ModuleOp [] [] None [[Block 0 [] [
      Operation 1 FuncOp [] [] (Some ([MemRefType [Fixed 4] f32, UnrankedMemRefType f32], []))
        [[Block 1 [MemRefType [Fixed 4] f32, UnrankedMemRefType f32] [
         Operation 2 (StandardOpsDialect, ''memref_cast'')
           [BlockArgument 1 0 (MemRefType [Fixed 4] f32)] [UnrankedMemRefType f32] None [],
         Operation 3 TensorLoadOp [BlockArgument 1 1 (UnrankedMemRefType f32)]
           [UnrankedTensorType f32] None [],
         Operation 4 TensorStoreOp
           [OpResult 3 0 (UnrankedTensorType f32), OpResult 2 0 (UnrankedMemRefType f32)] [] None [],
         Operation 5 CallOp [OpResult 2 0 (UnrankedMemRefType f32)] [] None [],
         Operation 6 ReturnOp [] [] None []]]],
      Operation 7 ModuleTerminatorOp [] [] None []]]]"

definition otherUseModuleAfter :: Operation where
  "otherUseModuleAfter = Operation 0 ModuleOp [] [] None [[Block 0 [] [
      Operation 1 FuncOp [] [] (Some ([MemRefType [Fixed 4] f32, UnrankedMemRefType f32], []))
        [[Block 1 [MemRefType [Fixed 4] f32, UnrankedMemRefType f32] [
         Operation 3 TensorLoadOp [BlockArgument 1 1 (UnrankedMemRefType f32)]
           [UnrankedTensorType f32] None [],
         Operation 5 CallOp [OpResult 3 0 (UnrankedTensorType f32)] [] None [],
         Operation 6 ReturnOp [] [] None []]]],
      Operation 7 ModuleTerminatorOp [] [] None []]]]"

definition otherUseStore :: Operation where
  "otherUseStore = Operation 4 TensorStoreOp
           [OpResult 3 0 (UnrankedTensorType f32), OpResult 2 0 (UnrankedMemRefType f32)] [] None []"

definition otherUseCast :: Operation where
  "otherUseCast = Operation 2 (StandardOpsDialect, ''memref_cast'')
           [BlockArgument 1 0 (MemRefType [Fixed 4] f32)] [UnrankedMemRefType f32] None []"

text \<open>The rewriter after the store pattern has run on the store of \<open>otherUseModule\<close>.\<close>

definition otherUseRewriter :: ConversionPatternRewriter where
  "otherUseRewriter = \<lparr>module = otherUseModule,
         log = [ReplaceOp 2 [OpResult 2 0 (UnrankedMemRefType f32)]
                  [OpResult 3 0 (UnrankedTensorType f32)], ReplaceOp 4 [] []]\<rparr>"

definition constantModule :: Operation where
  "constantModule = Operation 0 ModuleOp [] [] None [[Block 0 [] [
      Operation 2 FuncOp [] [] (Some ([], [])) [[Block 1 []
        [scalarConstant, Operation 3 ReturnOp [] [] None []]]],
      Operation 4 ModuleTerminatorOp [] [] None []]]]"

text \<open>
  In \<open>rewiredModule\<close> an unranked tensor is stored into the result of a cast, and an
  operation of the \<^verbatim>\<open>mhlo\<close> dialect, which the target classifies Illegal, uses the
  tensor and that result. \<open>insistent\<close> is an upstream pattern that reports success on
  that operation and rewrites nothing.
\<close>

definition unmatchedOp :: Operation where
  "unmatchedOp = Operation 6 (MhloDialect, ''tuple'')
     [OpResult 4 0 (UnrankedTensorType f32), OpResult 2 0 (UnrankedMemRefType f32)] [] None []"

definition unmatchedOpAfter :: Operation where
  "unmatchedOpAfter = Operation 6 (MhloDialect, ''tuple'')
     [OpResult 4 0 (UnrankedTensorType f32), OpResult 4 0 (UnrankedTensorType f32)] [] None []"

definition rewiredStore :: Operation where
  "rewiredStore = Operation 5 TensorStoreOp
     [OpResult 4 0 (UnrankedTensorType f32), OpResult 2 0 (UnrankedMemRefType f32)] [] None []"

definition rewiredModule :: Operation where
  "rewiredModule = Operation 0 ModuleOp [] [] None [[Block 0 [] [
      Operation 1 (StandardOpsDialect, ''alloc'') [] [MemRefType [Fixed 4] f32] None [],
      Operation 2 (StandardOpsDialect, ''memref_cast'')
        [OpResult 1 0 (MemRefType [Fixed 4] f32)] [UnrankedMemRefType f32] None [],
      Operation 3 (StandardOpsDialect, ''memref_cast'')
        [OpResult 1 0 (MemRefType [Fixed 4] f32)] [UnrankedMemRefType f32] None [],
      Operation 4 TensorLoadOp [OpResult 3 0 (UnrankedMemRefType f32)]
        [UnrankedTensorType f32] None [],
      rewiredStore,
      unmatchedOp,
      Operation 7 ModuleTerminatorOp [] [] None []]]]"

definition rewiredModuleAfter :: Operation where
  "rewiredModuleAfter = Operation 0 ModuleOp [] [] None [[Block 0 [] [
      Operation 1 (StandardOpsDialect, ''alloc'') [] [MemRefType [Fixed 4] f32] None [],
      Operation 3 (StandardOpsDialect, ''memref_cast'')
        [OpResult 1 0 (MemRefType [Fixed 4] f32)] [UnrankedMemRefType f32] None [],
      Operation 4 TensorLoadOp [OpResult 3 0 (UnrankedMemRefType f32)]
        [UnrankedTensorType f32] None [],
      unmatchedOpAfter,
      Operation 7 ModuleTerminatorOp [] [] None []]]]"

definition insistent :: ConversionPattern where
  "insistent = \<lparr>rootKind = (MhloDialect, ''tuple''), benefit = 1, typeConverter = None,
     matchAndRewrite = (\<lambda>op operands rewriter. Inr (success, rewriter))\<rparr>"

definition insistentUpstream :: Upstream where
  "insistentUpstream = noUpstream\<lparr>HLOToLHLOConversionPattern := [insistent]\<rparr>"

text \<open>
  In \<open>nestedConstantModule\<close> the destination of the store is the result of an operation
  with a region, in which a scalar constant is nested; another scalar constant stands
  beside it.
\<close>

definition nestedConstant :: Operation where
  "nestedConstant = Operation 3 ConstantOp [] [OtherType ''i32''] None []"

definition survivingConstant :: Operation where
  "survivingConstant = Operation 10 ConstantOp [] [OtherType ''i32''] None []"

definition nestedStore :: Operation where
  "nestedStore = Operation 8 TensorStoreOp
     [OpResult 7 0 (UnrankedTensorType f32), OpResult 2 0 (UnrankedMemRefType f32)] [] None []"

definition nestedConstantModule :: Operation where
  "nestedConstantModule = Operation 0 ModuleOp [] [] None [[Block 0 [] [
      survivingConstant,
      Operation 1 (StandardOpsDialect, ''alloc'') [] [MemRefType [Fixed 4] f32] None [],
      Operation 2 (AffineDialect, ''if'') [] [UnrankedMemRefType f32] None [[Block 1 [] [
        nestedConstant,
        Operation 4 (StandardOpsDialect, ''memref_cast'')
          [OpResult 1 0 (MemRefType [Fixed 4] f32)] [UnrankedMemRefType f32] None [],
        Operation 5 (AffineDialect, ''yield'') [OpResult 4 0 (UnrankedMemRefType f32)] []
          None []]]],
      Operation 6 (StandardOpsDialect, ''memref_cast'')
        [OpResult 1 0 (MemRefType [Fixed 4] f32)] [UnrankedMemRefType f32] None [],
      Operation 7 TensorLoadOp [OpResult 6 0 (UnrankedMemRefType f32)]
        [UnrankedTensorType f32] None [],
      nestedStore,
      Operation 9 ModuleTerminatorOp [] [] None []]]]"

definition nestedConstantModuleAfter :: Operation where
  "nestedConstantModuleAfter = Operation 0 ModuleOp [] [] None [[Block 0 [] [
      survivingConstant,
      Operation 1 (StandardOpsDialect, ''alloc'') [] [MemRefType [Fixed 4] f32] None [],
      Operation 6 (StandardOpsDialect, ''memref_cast'')
        [OpResult 1 0 (MemRefType [Fixed 4] f32)] [UnrankedMemRefType f32] None [],
      Operation 7 TensorLoadOp [OpResult 6 0 (UnrankedMemRefType f32)]
        [UnrankedTensorType f32] None [],
      Operation 9 ModuleTerminatorOp [] [] None []]]]"

section \<open>Facts about the configured target\<close>

lemmas opname_defs =
  ModuleOp_def ModuleTerminatorOp_def FuncOp_def DynamicTensorFromElementsOp_def
  ExtractElementOp_def TensorFromElementsOp_def TensorCastOp_def TensorLoadOp_def
  TensorToMemrefOp_def TensorStoreOp_def ConstantOp_def SelectOp_def CallOp_def DimOp_def
  RankOp_def ReturnOp_def

lemmas register_defs = addLegalDialect_def addIllegalDialect_def addLegalOp_def
  addIllegalOp_def newTarget_def

lemma isLegal_iff: "isLegal t = (\<not> isaTensorType t)"
  by (cases t) (simp_all add: isLegal_def)

lemma isLegal_eq: "isLegal = (\<lambda>t. convertType t = t)"
  by (rule ext) (simp add: isLegal_def)

lemma isLegalTypes_iff: "isLegalTypes ts = (\<not> list_ex isaTensorType ts)"
  by (induction ts) (simp_all add: isLegalTypes_def isLegal_iff)

lemma addDynamicallyLegalOp_fields [simp]:
  "illegalOps (addDynamicallyLegalOp ns f t) = illegalOps t"
  "illegalDialects (addDynamicallyLegalOp ns f t) = illegalDialects t"
  "legalOps (addDynamicallyLegalOp ns f t) = legalOps t"
  "legalDialects (addDynamicallyLegalOp ns f t) = legalDialects t"
  by (induction ns arbitrary: t) simp_all

lemma addDynamicallyLegalOp_dynamic:
  "dynamicLegality (addDynamicallyLegalOp ns f t) n =
     (if n \<in> set ns then Some f else dynamicLegality t n)"
  by (induction ns arbitrary: t) auto

lemma populateLegality_fields [simp]:
  "illegalOps (populateLegality d rules t) = illegalOps t"
  "illegalDialects (populateLegality d rules t) = illegalDialects t"
  "legalOps (populateLegality d rules t) = legalOps t"
  "legalDialects (populateLegality d rules t) = legalDialects t"
  by (induction d rules t rule: populateLegality.induct) simp_all

lemma populateLegality_other_dialect:
  "d' \<noteq> d \<Longrightarrow> dynamicLegality (populateLegality d rules t) (d', m) = dynamicLegality t (d', m)"
  by (induction d rules t rule: populateLegality.induct)
     (simp_all add: addDynamicallyLegalOp_dynamic)

lemma configureTarget_illegalOps:
  "illegalOps (configureTarget ap sh scf) =
     [DynamicTensorFromElementsOp, ExtractElementOp, TensorFromElementsOp, TensorCastOp]
     @ (if ap then [] else [TensorLoadOp, TensorToMemrefOp])"
  by (simp add: configureTarget_def Let_def register_defs)

lemma configureTarget_illegalDialects:
  "illegalDialects (configureTarget ap sh scf) = [MhloDialect]"
  by (simp add: configureTarget_def Let_def register_defs)

lemma configureTarget_legalOps:
  "legalOps (configureTarget ap sh scf) = [ModuleOp, ModuleTerminatorOp]"
  by (simp add: configureTarget_def Let_def register_defs)

lemma configureTarget_legalDialects:
  "legalDialects (configureTarget ap sh scf) =
     [SCFDialect, StandardOpsDialect, TFFrameworkDialect, AffineDialect, ShapeDialect,
      LmhloDialect]"
  by (simp add: configureTarget_def Let_def register_defs)

text \<open>
  The dynamic rules of a kind outside the shape and scf dialects are those of lines
  121-142, a later registration replacing an earlier one of the same kind.
\<close>

lemma configureTarget_dynamicLegality:
  assumes "d \<noteq> ShapeDialect" "d \<noteq> SCFDialect"
  shows "dynamicLegality (configureTarget ap sh scf) (d, m) =
     (Map.empty(ConstantOp \<mapsto> noTensorResults, SelectOp \<mapsto> noTensorResults,
        TensorStoreOp \<mapsto> tensorStoreIsLegal, FuncOp \<mapsto> funcIsLegal,
        CallOp \<mapsto> typesAreLegal, ConstantOp \<mapsto> typesAreLegal, DimOp \<mapsto> typesAreLegal,
        RankOp \<mapsto> typesAreLegal, SelectOp \<mapsto> typesAreLegal, ReturnOp \<mapsto> typesAreLegal))
       (d, m)"
proof -
  have "dynamicLegality (configureTarget ap sh scf) (d, m) =
     dynamicLegality
       (addDynamicallyLegalOp [CallOp, ConstantOp, DimOp, RankOp, SelectOp, ReturnOp] typesAreLegal
         (addDynamicallyLegalOp [FuncOp] funcIsLegal
           (addDynamicallyLegalOp [TensorStoreOp] tensorStoreIsLegal
             (addDynamicallyLegalOp [ConstantOp, SelectOp] noTensorResults newTarget)))) (d, m)"
    using assms
    by (simp add: configureTarget_def Let_def populateLegality_other_dialect
        addLegalDialect_def addIllegalDialect_def addLegalOp_def addIllegalOp_def
        addDynamicallyLegalOp_dynamic)
  also have "\<dots> = (Map.empty(ConstantOp \<mapsto> noTensorResults, SelectOp \<mapsto> noTensorResults,
        TensorStoreOp \<mapsto> tensorStoreIsLegal, FuncOp \<mapsto> funcIsLegal,
        CallOp \<mapsto> typesAreLegal, ConstantOp \<mapsto> typesAreLegal, DimOp \<mapsto> typesAreLegal,
        RankOp \<mapsto> typesAreLegal, SelectOp \<mapsto> typesAreLegal, ReturnOp \<mapsto> typesAreLegal))
       (d, m)"
    by (simp add: newTarget_def del: fun_upd_apply)
  finally show ?thesis .
qed

lemma legality_std_dynamic:
  assumes "getName op \<in> {ConstantOp, SelectOp, CallOp, DimOp, RankOp, ReturnOp}"
  shows "legality (configureTarget ap sh scf) op = (if typesAreLegal op then Legal else Illegal)"
proof -
  have "dynamicLegality (configureTarget ap sh scf) (getName op) = Some typesAreLegal"
    using assms by (auto simp add: opname_defs configureTarget_dynamicLegality)
  then show ?thesis by (simp add: legality_def)
qed

text \<open>
  For \<^verbatim>\<open>ConstantOp\<close> and \<^verbatim>\<open>SelectOp\<close> the registration of lines 141-142 replaces that
  of lines 121-124.
\<close>

lemma constant_select_rule_in_force:
  "dynamicLegality (configureTarget ap sh scf) ConstantOp = Some typesAreLegal"
  "dynamicLegality (configureTarget ap sh scf) SelectOp = Some typesAreLegal"
  by (simp_all add: opname_defs configureTarget_dynamicLegality)

lemma legalize_Legal:
  "legality target op = Legal \<Longrightarrow> legalize target patterns root op = Inr None"
  by (simp add: legalize_def)

lemma typesAreLegal_constant:
  "hasConstantSignature op \<Longrightarrow> typesAreLegal op = (\<not> list_ex isaTensorType (getResultTypes op))"
  by (simp add: hasConstantSignature_def typesAreLegal_def getOperandTypes_def isLegalTypes_iff)

lemma typesAreLegal_select:
  "hasSelectSignature op \<Longrightarrow> typesAreLegal op = (\<not> list_ex isaTensorType (getResultTypes op))"
  by (auto simp add: hasSelectSignature_def typesAreLegal_def getOperandTypes_def isLegalTypes_iff
      split: list.splits)

lemma applyRewrite_root:
  "opId (applyRewrite r x) = opId x \<and> getName (applyRewrite r x) = getName x"
  by (cases r; cases x) simp_all

lemma fold_applyRewrite_root:
  "opId (fold applyRewrite lg x) = opId x \<and> getName (fold applyRewrite lg x) = getName x"
  by (induction lg arbitrary: x) (simp_all add: applyRewrite_root)

section \<open>Facts about the operation tree and the rewriter\<close>

lemma eraseOp_sel [simp]:
  "opId (eraseOp k x) = opId x" "getName (eraseOp k x) = getName x"
  "getOperands (eraseOp k x) = getOperands x" "getResultTypes (eraseOp k x) = getResultTypes x"
  by (cases x; simp)+

lemma mapOperands_sel [simp]:
  "opId (mapOperands f x) = opId x" "getName (mapOperands f x) = getName x"
  "getOperands (mapOperands f x) = map f (getOperands x)"
  "getResultTypes (mapOperands f x) = getResultTypes x"
  by (cases x; simp)+

lemma walk_self: "x \<in> set (walk x)"
  by (cases x) simp

lemma walk_mapOperands:
  "walk (mapOperands f x) = map (mapOperands f) (walk x)"
  "walkBlock (mapOperandsBlock f b) = map (mapOperands f) (walkBlock b)"
  by (induction x and b) (simp_all add: map_concat comp_def cong: map_cong)

lemma walk_eraseOp:
  "y \<in> set (walk (eraseOp k x)) \<Longrightarrow>
     (\<exists>z \<in> set (walk x). y = eraseOp k z) \<and> (y = eraseOp k x \<or> opId y \<noteq> k)"
  "y \<in> set (walkBlock (eraseOpBlock k b)) \<Longrightarrow>
     (\<exists>z \<in> set (walkBlock b). y = eraseOp k z) \<and> opId y \<noteq> k"
proof (induction x and b arbitrary: y and y)
  case (Operation i n os rs a regs)
  show ?case
  proof (cases "y = eraseOp k (Operation i n os rs a regs)")
    case True
    then show ?thesis using walk_self by blast
  next
    case False
    with Operation.prems obtain r b where rb: "r \<in> set regs" "b \<in> set r"
      "y \<in> set (walkBlock (eraseOpBlock k b))"
      by auto
    from Operation.IH [OF rb] have "(\<exists>z \<in> set (walkBlock b). y = eraseOp k z) \<and> opId y \<noteq> k" .
    with rb show ?thesis by auto
  qed
next
  case (Block b args ops)
  from Block.prems obtain x where x: "x \<in> set ops" "opId x \<noteq> k" "y \<in> set (walk (eraseOp k x))"
    by auto
  from Block.IH [OF x(1) x(3)] x show ?case by auto
qed

lemma walkWithout_Nil:
  "walkWithout [] x = walk x"
  "walkWithoutBlock [] b = walkBlock b"
  by (induction x and b) (simp_all cong: map_cong)

lemma walkWithout_mapOperands:
  "walkWithout ks (mapOperands f x) = map (mapOperands f) (walkWithout ks x)"
  "walkWithoutBlock ks (mapOperandsBlock f b) = map (mapOperands f) (walkWithoutBlock ks b)"
  by (induction x and b) (simp_all add: map_concat comp_def if_distrib cong: map_cong if_cong)

lemma walkWithout_eraseOp:
  "walkWithout ks (eraseOp k x) = map (eraseOp k) (walkWithout (k # ks) x)"
  "walkWithoutBlock ks (eraseOpBlock k b) = map (eraseOp k) (walkWithoutBlock (k # ks) b)"
proof (induction x and b)
  case (Operation i n os rs a regs)
  then show ?case by (simp add: map_concat comp_def cong: map_cong)
next
  case (Block b args ops)
  have "concat (map (\<lambda>x. if opId x \<in> set ks then [] else walkWithout ks x)
           (filter (\<lambda>x. opId x \<noteq> k) (map (eraseOp k) ops)))
      = concat (map (\<lambda>x. if opId x = k \<or> opId x \<in> set ks then []
                           else map (eraseOp k) (walkWithout (k # ks) x)) ops)"
    using Block by (induction ops) simp_all
  then show ?case by (simp add: map_concat comp_def if_distrib cong: map_cong if_cong)
qed

text \<open>What is left of a module after a use has been rewired and two operations erased.\<close>

lemma walk_after_two_erasures:
  "walk (eraseOp s (eraseOp a (mapOperands f root)))
     = map (\<lambda>z. eraseOp s (eraseOp a (mapOperands f z))) (walkWithout [a, s] root)"
proof -
  have "walk (eraseOp s (eraseOp a (mapOperands f root)))
      = map (eraseOp s) (walkWithout [s] (eraseOp a (mapOperands f root)))"
    using walkWithout_eraseOp(1) [of "[]" s] by (simp add: walkWithout_Nil)
  also have "walkWithout [s] (eraseOp a (mapOperands f root))
      = map (eraseOp a) (walkWithout [a, s] (mapOperands f root))"
    by (rule walkWithout_eraseOp)
  also have "walkWithout [a, s] (mapOperands f root)
      = map (mapOperands f) (walkWithout [a, s] root)"
    by (rule walkWithout_mapOperands)
  finally show ?thesis by (simp add: comp_def)
qed

lemma replaceValue_single: "replaceValue [m] [t] v = (if v = m then t else v)"
  by (simp add: replaceValue_def)

lemma mapOperands_id:
  "mapOperands (\<lambda>v. v) x = x"
  "mapOperandsBlock (\<lambda>v. v) b = b"
  by (induction x and b) (simp_all add: map_idI)

lemma replaceValue_Nil: "replaceValue [] [] = (\<lambda>v. v)"
  by (rule ext) (simp add: replaceValue_def)

lemma findOp_Some: "findOp k root = Some x \<Longrightarrow> x \<in> set (walk root) \<and> opId x = k"
  by (auto simp add: findOp_def find_Some_iff)

lemma store_pattern_success:
  assumes "getOperands st = t # m # rest" "getDefiningOp m = Some a" "findOp a root = Some A"
    "length (getResultTypes A) = 1" "findOp (opId st) root = Some st" "getResultTypes st = []"
  shows "UnrankedTensorStoreTestOnlyPattern_matchAndRewrite st operands \<lparr>module = root, log = lg\<rparr>
     = Inr (success, \<lparr>module = root,
          log = lg @ [ReplaceOp a (getResults A) [t], ReplaceOp (opId st) [] []]\<rparr>)"
  using assms
  by (simp add: UnrankedTensorStoreTestOnlyPattern_matchAndRewrite_def memref_def tensor_def
      replaceOp_def getResults_def)

text \<open>The rewrite does not depend on the operands it is handed.\<close>

lemma store_pattern_ignores_operands:
  "UnrankedTensorStoreTestOnlyPattern_matchAndRewrite op operands rewriter
     = UnrankedTensorStoreTestOnlyPattern_matchAndRewrite op operands' rewriter"
  by (simp add: UnrankedTensorStoreTestOnlyPattern_matchAndRewrite_def)

lemma store_pattern_fires:
  assumes "UnrankedTensorStoreTestOnlyPattern_matchAndRewrite st operands rewriter
             = Inr (success, rewriter')"
  shows "\<exists>t m rest a A st'.
           getOperands st = t # m # rest \<and> getDefiningOp m = Some a
         \<and> findOp a (module rewriter) = Some A \<and> length (getResultTypes A) = 1
         \<and> findOp (opId st) (module rewriter) = Some st' \<and> getResultTypes st' = []
         \<and> rewriter' = rewriter\<lparr>log := log rewriter
               @ [ReplaceOp a (getResults A) [t], ReplaceOp (opId st) [] []]\<rparr>"
  using assms
  by (auto simp add: UnrankedTensorStoreTestOnlyPattern_matchAndRewrite_def memref_def
      tensor_def replaceOp_def getResults_def
      split: option.splits sum.splits list.splits if_splits)

lemma store_rewrite_applied:
  "applyRewrites \<lparr>module = root, log = [ReplaceOp a [m] [t], ReplaceOp s [] []]\<rparr>
     = eraseOp s (eraseOp a (mapOperands (\<lambda>v. if v = m then t else v) root))"
  by (simp add: applyRewrites_def replaceValue_Nil mapOperands_id replaceValue_single [abs_def])

lemma store_rewrite_survivors:
  assumes y: "y \<in> set (walk (eraseOp s (eraseOp a (mapOperands (\<lambda>v. if v = m then t else v) root))))"
    and root: "opId root \<noteq> a" "opId root \<noteq> s"
  shows "opId y \<noteq> a \<and> opId y \<noteq> s
     \<and> (\<exists>z \<in> set (walk root). opId z = opId y \<and> getName z = getName y
           \<and> getResultTypes z = getResultTypes y
           \<and> getOperands y = map (\<lambda>v. if v = m then t else v) (getOperands z))"
proof -
  let ?R = "mapOperands (\<lambda>v. if v = m then t else v) root"
  from walk_eraseOp(1) [OF y] obtain y1 where y1: "y1 \<in> set (walk (eraseOp a ?R))" "y = eraseOp s y1"
    and s: "y = eraseOp s (eraseOp a ?R) \<or> opId y \<noteq> s" by blast
  from walk_eraseOp(1) [OF y1(1)] obtain y2 where y2: "y2 \<in> set (walk ?R)" "y1 = eraseOp a y2"
    and a: "y1 = eraseOp a ?R \<or> opId y1 \<noteq> a" by blast
  from y2(1) obtain z where z: "z \<in> set (walk root)" "y2 = mapOperands (\<lambda>v. if v = m then t else v) z"
    by (auto simp add: walk_mapOperands)
  have rs: "opId (eraseOp s (eraseOp a ?R)) = opId root" by simp
  have ra: "opId (eraseOp a ?R) = opId root" by simp
  have "opId y \<noteq> s" using s rs root(2) by metis
  moreover have "opId y1 \<noteq> a" using a ra root(1) by metis
  ultimately show ?thesis using z y1 y2 by auto
qed



section \<open>Facts about the driver\<close>

lemma set_byBenefit: "set (byBenefit patterns) = set patterns"
  by (simp add: byBenefit_def)





text \<open>The fuel only bounds the number of sweeps: more of it does not change a result.\<close>

lemma fixpoint_fuel:
  "fixpoint fuel target patterns root = Some r \<Longrightarrow>
     fixpoint (fuel + extra) target patterns root = Some r"
  by (induction fuel arbitrary: root) (auto split: sum.splits prod.splits if_splits)


lemma runOnOperation_full:
  "(runOnOperation False upstream fuel root = Some (Inr (signalled, root')))
     = (\<exists>r. applyFullConversion fuel root
              (configureTarget False (ShapeLegality upstream) (SCFLegality upstream))
              (populatePatterns upstream) = Some (Inr (r, root'))
            \<and> signalled = failed r)"
  by (auto simp add: runOnOperation_def Let_def split: option.splits sum.splits)

lemma failed_iff: "failed r = (r = failure)"
  by (simp add: failed_def)

lemma not_Legal: "(l \<noteq> Legal) = (l = Illegal \<or> l = Unknown)"
  by (cases l) simp_all


lemma example_fixpoint_full:
  "fixpoint 3 (configureTarget False [] []) (populatePatterns noUpstream) exampleModule
     = Some (Inr exampleModuleAfter)"
  by code_simp

section \<open>Facts about runs\<close>

text \<open>
  The module at the fixpoint is the input with the logs of the fired patterns applied in
  order, and an operation that no rewrite replaces, encloses in a replaced operation or
  changes is still in it.
\<close>

lemma walkWithout_insertBefore:
  "z \<in> set (walkWithout ks x) \<Longrightarrow>
     insertBefore k new z \<in> set (walkWithout ks (insertBefore k new x))"
  "z \<in> set (walkWithoutBlock ks b) \<Longrightarrow>
     insertBefore k new z \<in> set (walkWithoutBlock ks (insertBeforeBlock k new b))"
proof (induction x and b arbitrary: z and z)
  case (Operation i n os rs a regs)
  show ?case
  proof (cases "z = Operation i n os rs a regs")
    case True
    then show ?thesis by simp
  next
    case False
    with Operation.prems obtain r b where rb: "r \<in> set regs" "b \<in> set r"
      "z \<in> set (walkWithoutBlock ks b)"
      by auto
    from Operation.IH [OF rb]
    have "insertBefore k new z \<in> set (walkWithoutBlock ks (insertBeforeBlock k new b))" .
    with rb show ?thesis by auto
  qed
next
  case (Block b args ops)
  from Block.prems obtain y where y: "y \<in> set ops" "opId y \<notin> set ks" "z \<in> set (walkWithout ks y)"
    by (auto split: if_splits)
  have id: "opId (insertBefore k new y) = opId y" by (cases y) simp
  from Block.IH [OF y(1) y(3)]
  have "insertBefore k new z \<in> set (walkWithout ks (insertBefore k new y))" .
  with y id show ?case
    by (auto intro!: bexI [of _ y] bexI [of _ "insertBefore k new y"])
qed

lemma walkWithout_applyRewrite:
  assumes "x \<in> set (walkWithout (replacedIds [r] @ ks) root)"
  shows "applyRewrite r x \<in> set (walkWithout ks (applyRewrite r root))"
proof (cases r)
  case (ReplaceOp k olds news)
  then show ?thesis
    using assms by (simp add: walkWithout_eraseOp walkWithout_mapOperands)
next
  case (InsertOp k new)
  then show ?thesis
    using assms by (simp add: walkWithout_insertBefore)
qed

lemma replacedIds_append: "replacedIds (xs @ ys) = replacedIds xs @ replacedIds ys"
  by (induction xs rule: replacedIds.induct) simp_all

lemma preserved_fold:
  assumes "x \<in> set (walkWithout (replacedIds trace @ ks) root)"
    and "\<forall>r \<in> set trace. applyRewrite r x = x"
  shows "x \<in> set (walkWithout ks (fold applyRewrite trace root))"
  using assms
proof (induction trace arbitrary: root)
  case Nil
  then show ?case by simp
next
  case (Cons r trace)
  have "walkWithout (replacedIds (r # trace) @ ks) root
      = walkWithout (replacedIds [r] @ (replacedIds trace @ ks)) root"
    by (cases r) simp_all
  with Cons.prems(1) have "x \<in> set (walkWithout (replacedIds [r] @ (replacedIds trace @ ks)) root)"
    by simp
  from walkWithout_applyRewrite [OF this] Cons.prems(2)
  have "x \<in> set (walkWithout (replacedIds trace @ ks) (applyRewrite r root))" by simp
  from Cons.IH [OF this] Cons.prems(2) show ?case by simp
qed

lemma materializeOperands_module:
  "materializeOperands conv k vs rewriter = (vs', rewriter') \<Longrightarrow>
     module rewriter' = module rewriter"
  by (induction conv k vs rewriter arbitrary: vs' rewriter' rule: materializeOperands.induct)
     (auto simp add: Let_def split: if_splits prod.splits)

lemma remapOperands_module:
  "remapOperands pattern op rewriter = (operands, rewriter') \<Longrightarrow>
     module rewriter' = module rewriter"
  by (auto simp add: remapOperands_def materializeOperands_module split: option.splits)

lemma tryPatterns_commit:
  assumes "\<forall>pattern \<in> set patterns. recordsOnly pattern"
    and "tryPatterns patterns root op = Inr (Some root')"
  shows "\<exists>pattern \<in> set patterns. \<exists>operands rewriter rewriter'.
            rootKind pattern = getName op
          \<and> remapOperands pattern op \<lparr>module = root, log = []\<rparr> = (operands, rewriter)
          \<and> matchAndRewrite pattern op operands rewriter = Inr (success, rewriter')
          \<and> root' = fold applyRewrite (log rewriter') root"
  using assms
proof (induction patterns)
  case Nil
  then show ?case by simp
next
  case (Cons p ps)
  show ?case
  proof (cases "rootKind p = getName op")
    case False
    with Cons show ?thesis by auto
  next
    case True
    obtain operands rewriter where rm:
      "remapOperands p op \<lparr>module = root, log = []\<rparr> = (operands, rewriter)"
      by (cases "remapOperands p op \<lparr>module = root, log = []\<rparr>")
    then have m: "module rewriter = root" using remapOperands_module by fastforce
    show ?thesis
    proof (cases "matchAndRewrite p op operands rewriter")
      case (Inl e)
      with True rm Cons.prems show ?thesis by simp
    next
      case (Inr res)
      obtain r rewriter' where res: "res = (r, rewriter')" by (cases res)
      show ?thesis
      proof (cases r)
        case success
        with Inr res True rm Cons.prems(2)
        have root': "root' = applyRewrites rewriter'" by simp
        from Cons.prems(1) Inr res have "module rewriter' = module rewriter"
          by (auto simp add: recordsOnly_def)
        with m root' have "root' = fold applyRewrite (log rewriter') root"
          by (simp add: applyRewrites_def)
        with True rm Inr res success show ?thesis by auto
      next
        case failure
        with Inr res True rm Cons.prems(2) have "tryPatterns ps root op = Inr (Some root')"
          by simp
        with Cons.IH Cons.prems(1) show ?thesis by auto
      qed
    qed
  qed
qed

lemma legalize_commit:
  assumes "\<forall>pattern \<in> set patterns. recordsOnly pattern"
    and "legalize target patterns root op = Inr (Some root')"
  shows "\<exists>lg. fired target patterns root op lg \<and> root' = fold applyRewrite lg root"
proof -
  from assms(2) have l: "legality target op \<noteq> Legal"
    and t: "tryPatterns (byBenefit patterns) root op = Inr (Some root')"
    by (auto simp add: legalize_def split: if_splits)
  have "\<forall>pattern \<in> set (byBenefit patterns). recordsOnly pattern"
    using assms(1) by (simp add: set_byBenefit)
  from tryPatterns_commit [OF this t] l show ?thesis
    unfolding fired_def set_byBenefit by blast
qed

lemma commits_fold:
  "commits target patterns root logs root' \<Longrightarrow> root' = fold applyRewrite (concat logs) root"
  by (induction rule: commits.induct) simp_all

lemma commits_append:
  "commits target patterns root logs1 root1 \<Longrightarrow> commits target patterns root1 logs2 root' \<Longrightarrow>
     commits target patterns root (logs1 @ logs2) root'"
  by (induction rule: commits.induct) (auto intro: commits.intros)

lemma sweep_trace:
  assumes "\<forall>pattern \<in> set patterns. recordsOnly pattern"
    and "sweep target patterns worklist root changed = Inr (root', changed')"
  shows "\<exists>logs. commits target patterns root logs root'"
  using assms(2)
proof (induction worklist arbitrary: root changed)
  case Nil
  then show ?case by (auto intro: commits_Nil)
next
  case (Cons k worklist)
  show ?case
  proof (cases "findOp k root")
    case None
    with Cons show ?thesis by simp
  next
    case (Some op)
    then have found: "findOp (opId op) root = Some op" using findOp_Some by fastforce
    show ?thesis
    proof (cases "legalize target patterns root op")
      case (Inl e)
      with Some Cons.prems show ?thesis by simp
    next
      case (Inr r)
      show ?thesis
      proof (cases r)
        case None
        with Inr Some Cons show ?thesis by simp
      next
        case (Some root1)
        with Inr \<open>findOp k root = Some op\<close> Cons.prems
        have "sweep target patterns worklist root1 True = Inr (root', changed')" by simp
        from Cons.IH [OF this] obtain logs where logs: "commits target patterns root1 logs root'"
          by blast
        from legalize_commit [OF assms(1)] Inr Some obtain lg where lg:
          "fired target patterns root op lg" "root1 = fold applyRewrite lg root"
          by blast
        from commits_Cons [OF found lg(1)] logs lg(2)
        have "commits target patterns root (lg # logs) root'" by simp
        then show ?thesis by blast
      qed
    qed
  qed
qed

lemma fixpoint_trace:
  assumes "\<forall>pattern \<in> set patterns. recordsOnly pattern"
    and "fixpoint fuel target patterns root = Some (Inr root')"
  shows "\<exists>logs. commits target patterns root logs root'"
  using assms(2)
proof (induction fuel arbitrary: root)
  case 0
  then show ?case by simp
next
  case (Suc fuel)
  show ?case
  proof (cases "sweep target patterns (map opId (walk root)) root False")
    case (Inl e)
    with Suc.prems show ?thesis by simp
  next
    case (Inr r)
    obtain root1 changed where r: "r = (root1, changed)" by (cases r)
    from sweep_trace [OF assms(1)] Inr r obtain logs1
      where logs1: "commits target patterns root logs1 root1"
      by blast
    show ?thesis
    proof (cases changed)
      case False
      with Inr r Suc.prems have "root' = root1" by simp
      with logs1 show ?thesis by blast
    next
      case True
      with Inr r Suc.prems have "fixpoint fuel target patterns root1 = Some (Inr root')" by simp
      from Suc.IH [OF this] obtain logs2 where "commits target patterns root1 logs2 root'"
        by blast
      from commits_append [OF logs1 this] show ?thesis by blast
    qed
  qed
qed



text \<open>The upstream catalogues and rules matter only where one of their patterns matches.\<close>

lemma populatePatterns_upstream:
  "populatePatterns upstream
     = upstreamPatterns upstream @ [UnrankedTensorStoreTestOnlyPattern, ReturnOpTypeConversionPattern]"
  by (simp add: populatePatterns_def upstreamPatterns_def)

lemma upstreamPatterns_noUpstream: "upstreamPatterns noUpstream = []"
  by (simp add: upstreamPatterns_def noUpstream_def)

lemma legality_upstream:
  assumes "fst (getName op) \<noteq> ShapeDialect" "fst (getName op) \<noteq> SCFDialect"
  shows "legality (configureTarget ap sh scf) op = legality (configureTarget ap [] []) op"
proof -
  obtain d m where n: "getName op = (d, m)" by (cases "getName op")
  with assms have d: "d \<noteq> ShapeDialect" "d \<noteq> SCFDialect" by simp_all
  show ?thesis
    unfolding legality_def n
    by (simp only: configureTarget_dynamicLegality [OF d] configureTarget_illegalOps
        configureTarget_illegalDialects configureTarget_legalOps configureTarget_legalDialects)
qed

lemma filter_byBenefit: "filter Q (byBenefit patterns) = byBenefit (filter Q patterns)"
  by (simp add: byBenefit_def filter_sort)

lemma sweep_transfer:
  assumes inv: "\<forall>root op root2. I root \<longrightarrow> findOp (opId op) root = Some op \<longrightarrow>
        legalize target0 patterns0 root op = Inr (Some root2) \<longrightarrow> I root2"
    and indep: "\<forall>root op. I root \<longrightarrow> op \<in> set (walk root) \<longrightarrow>
        legalize target patterns root op = legalize target0 patterns0 root op"
    and "I root"
  shows "sweep target patterns worklist root changed
           = sweep target0 patterns0 worklist root changed
         \<and> (\<forall>root' changed'. sweep target0 patterns0 worklist root changed
               = Inr (root', changed') \<longrightarrow> I root')"
  using assms(3)
proof (induction worklist arbitrary: root changed)
  case Nil
  then show ?case by simp
next
  case (Cons k worklist)
  show ?case
  proof (cases "findOp k root")
    case None
    with Cons show ?thesis by simp
  next
    case (Some op)
    then have f: "findOp (opId op) root = Some op" "op \<in> set (walk root)"
      using findOp_Some by fastforce+
    from indep Cons.prems f(2)
    have eq: "legalize target patterns root op = legalize target0 patterns0 root op" by blast
    show ?thesis
    proof (cases "legalize target0 patterns0 root op")
      case (Inl e)
      with Some eq show ?thesis by simp
    next
      case (Inr r)
      show ?thesis
      proof (cases r)
        case None
        with Inr Some eq Cons show ?thesis by simp
      next
        case (Some root1)
        from inv Cons.prems f(1) Inr Some have "I root1" by blast
        from Cons.IH [OF this, of True] Inr Some eq \<open>findOp k root = Some op\<close>
        show ?thesis by simp
      qed
    qed
  qed
qed

lemma fixpoint_transfer:
  assumes inv: "\<forall>root op root2. I root \<longrightarrow> findOp (opId op) root = Some op \<longrightarrow>
        legalize target0 patterns0 root op = Inr (Some root2) \<longrightarrow> I root2"
    and indep: "\<forall>root op. I root \<longrightarrow> op \<in> set (walk root) \<longrightarrow>
        legalize target patterns root op = legalize target0 patterns0 root op"
    and "I root"
  shows "fixpoint fuel target patterns root = fixpoint fuel target0 patterns0 root
         \<and> (\<forall>root'. fixpoint fuel target0 patterns0 root = Some (Inr root') \<longrightarrow> I root')"
  using assms(3)
proof (induction fuel arbitrary: root)
  case 0
  then show ?case by simp
next
  case (Suc fuel)
  from sweep_transfer [OF inv indep Suc.prems, of "map opId (walk root)" False]
  have eq: "sweep target patterns (map opId (walk root)) root False
      = sweep target0 patterns0 (map opId (walk root)) root False"
    and I': "\<forall>root' changed'. sweep target0 patterns0 (map opId (walk root)) root False
               = Inr (root', changed') \<longrightarrow> I root'"
    by blast+
  show ?case
  proof (cases "sweep target0 patterns0 (map opId (walk root)) root False")
    case (Inl e)
    with eq show ?thesis by simp
  next
    case (Inr r)
    obtain root1 changed where r: "r = (root1, changed)" by (cases r)
    with Inr I' have "I root1" by blast
    from Suc.IH [OF this] Inr r eq \<open>I root1\<close> show ?thesis by simp
  qed
qed

lemma replaceOp_module:
  "replaceOp k newValues rewriter = Inr rewriter' \<Longrightarrow> module rewriter' = module rewriter"
  by (auto simp add: replaceOp_def split: option.splits if_splits)

lemma recordsOnly_store: "recordsOnly UnrankedTensorStoreTestOnlyPattern"
  by (auto simp add: recordsOnly_def UnrankedTensorStoreTestOnlyPattern_def
      UnrankedTensorStoreTestOnlyPattern_matchAndRewrite_def
      split: option.splits sum.splits dest!: replaceOp_module)

lemma recordsOnly_return: "recordsOnly ReturnOpTypeConversionPattern"
  by (auto simp add: recordsOnly_def ReturnOpTypeConversionPattern_def
      ReturnOpTypeConversionPattern_matchAndRewrite_def replaceOpWithNewOp_def Let_def
      split: sum.splits dest!: replaceOp_module)


lemma recordsOnly_noUpstream: "\<forall>pattern \<in> set (populatePatterns noUpstream). recordsOnly pattern"
  by (simp add: populatePatterns_def noUpstream_def recordsOnly_store recordsOnly_return)


lemma applyRewrite_leaf:
  "getOperands x = [] \<Longrightarrow> getRegions x = [] \<Longrightarrow> applyRewrite r x = x"
  by (cases x; cases r) simp_all

lemma tryPatterns_skip:
  "tryPatterns (filter (\<lambda>pattern. \<not> declines pattern root op) patterns) root op
     = tryPatterns patterns root op"
  by (induction patterns)
    (auto simp add: declines_def split: prod.splits sum.splits LogicalResult.splits)

lemma legalize_upstream:
  assumes "fst (getName op) \<noteq> ShapeDialect" "fst (getName op) \<noteq> SCFDialect"
    and "legality (configureTarget ap [] []) op = Legal
         \<or> (\<forall>pattern \<in> set (upstreamPatterns upstream). declines pattern root op)"
  shows "legalize (configureTarget ap (ShapeLegality upstream) (SCFLegality upstream))
             (populatePatterns upstream) root op
           = legalize (configureTarget ap [] []) (populatePatterns noUpstream) root op"
proof -
  have leg: "legality (configureTarget ap (ShapeLegality upstream) (SCFLegality upstream)) op
      = legality (configureTarget ap [] []) op"
    by (rule legality_upstream [OF assms(1,2)])
  show ?thesis
  proof (cases "legality (configureTarget ap [] []) op = Legal")
    case True
    then show ?thesis by (simp add: legalize_def leg)
  next
    case False
    with assms(3)
    have "filter (\<lambda>pattern. \<not> declines pattern root op) (upstreamPatterns upstream) = []"
      by (auto simp add: filter_empty_conv)
    then have "filter (\<lambda>pattern. \<not> declines pattern root op) (populatePatterns upstream)
        = filter (\<lambda>pattern. \<not> declines pattern root op) (populatePatterns noUpstream)"
      by (simp add: populatePatterns_upstream upstreamPatterns_noUpstream)
    then have "tryPatterns (byBenefit (populatePatterns upstream)) root op
        = tryPatterns (byBenefit (populatePatterns noUpstream)) root op"
      using tryPatterns_skip [of root op "byBenefit (populatePatterns upstream)"]
        tryPatterns_skip [of root op "byBenefit (populatePatterns noUpstream)"]
      by (simp add: filter_byBenefit)
    then show ?thesis by (simp add: legalize_def leg)
  qed
qed

lemma runOnOperation_fixpoint:
  "(\<exists>signalled. runOnOperation ap upstream fuel root = Some (Inr (signalled, root')))
     = (fixpoint fuel (configureTarget ap (ShapeLegality upstream) (SCFLegality upstream))
          (populatePatterns upstream) root = Some (Inr root'))"
  by (auto simp add: runOnOperation_def applyPartialConversion_def applyFullConversion_def
      Let_def split: option.splits sum.splits)

text \<open>
  A run does not depend on the upstream patterns and rules when, in every module it goes
  through, no operation is of the Shape or SCF dialect and every upstream pattern reports
  "no match" on every operation that is not Legal.
\<close>

lemma runOnOperation_upstream:
  assumes closed: "list_all (\<lambda>root. list_all (\<lambda>op.
        case legalize (configureTarget ap [] []) (populatePatterns noUpstream) root op of
          Inr (Some root2) \<Rightarrow> root2 \<in> set roots | _ \<Rightarrow> True) (walk root)) roots"
    and kinds: "list_all (\<lambda>root. list_all (\<lambda>op.
        fst (getName op) \<noteq> ShapeDialect \<and> fst (getName op) \<noteq> SCFDialect) (walk root)) roots"
    and up: "\<forall>root \<in> set roots. \<forall>op \<in> set (walk root).
        legality (configureTarget ap [] []) op = Legal
        \<or> (\<forall>pattern \<in> set (upstreamPatterns upstream). declines pattern root op)"
    and root: "root \<in> set roots"
  shows "runOnOperation ap upstream fuel root = runOnOperation ap noUpstream fuel root"
proof -
  let ?T = "configureTarget ap (ShapeLegality upstream) (SCFLegality upstream)"
  let ?P = "populatePatterns upstream"
  let ?Tn = "configureTarget ap [] []"
  let ?Pn = "populatePatterns noUpstream"
  let ?I = "\<lambda>r. r \<in> set roots"
  have inv: "\<forall>root op root2. ?I root \<longrightarrow> findOp (opId op) root = Some op \<longrightarrow>
        legalize ?Tn ?Pn root op = Inr (Some root2) \<longrightarrow> ?I root2"
  proof (intro allI impI)
    fix r op r2
    assume "r \<in> set roots" "findOp (opId op) r = Some op" "legalize ?Tn ?Pn r op = Inr (Some r2)"
    moreover from this have "op \<in> set (walk r)" using findOp_Some by blast
    ultimately show "r2 \<in> set roots" using closed by (fastforce simp add: list_all_iff)
  qed
  have indep: "\<forall>root op. ?I root \<longrightarrow> op \<in> set (walk root) \<longrightarrow>
        legalize ?T ?P root op = legalize ?Tn ?Pn root op"
  proof (intro allI impI)
    fix r op
    assume a: "r \<in> set roots" "op \<in> set (walk r)"
    with kinds have k: "fst (getName op) \<noteq> ShapeDialect" "fst (getName op) \<noteq> SCFDialect"
      by (auto simp add: list_all_iff)
    from up a have "legality ?Tn op = Legal
        \<or> (\<forall>pattern \<in> set (upstreamPatterns upstream). declines pattern r op)" by blast
    from legalize_upstream [OF k this] show "legalize ?T ?P r op = legalize ?Tn ?Pn r op" .
  qed
  from fixpoint_transfer [OF inv indep root, of fuel]
  have fp: "fixpoint fuel ?T ?P root = fixpoint fuel ?Tn ?Pn root"
    and res: "\<forall>root'. fixpoint fuel ?Tn ?Pn root = Some (Inr root') \<longrightarrow> root' \<in> set roots"
    by blast+
  have leg: "list_all (\<lambda>op. legality ?T op = Legal) (walk root')
      = list_all (\<lambda>op. legality ?Tn op = Legal) (walk root')"
    if "fixpoint fuel ?Tn ?Pn root = Some (Inr root')" for root'
  proof -
    from res that have "root' \<in> set roots" by blast
    with kinds have "\<forall>op \<in> set (walk root'). legality ?T op = legality ?Tn op"
      by (auto simp add: list_all_iff intro!: legality_upstream)
    then show ?thesis by (auto simp add: list_all_iff)
  qed
  have s: "ShapeLegality noUpstream = []" "SCFLegality noUpstream = []"
    by (simp_all add: noUpstream_def)
  show ?thesis
  proof (cases ap)
    case True
    with fp show ?thesis
      by (simp add: runOnOperation_def applyPartialConversion_def Let_def s)
  next
    case False
    with fp leg show ?thesis
      by (auto simp add: runOnOperation_def applyFullConversion_def Let_def s
          split: option.splits sum.splits)
  qed
qed

lemma rewired_run:
  "runOnOperation True noUpstream 2 rewiredModule = Some (Inr (False, rewiredModuleAfter))"
  by code_simp

lemma rewired_closed:
  "list_all (\<lambda>root. list_all (\<lambda>op.
        case legalize (configureTarget True [] []) (populatePatterns noUpstream) root op of
          Inr (Some root2) \<Rightarrow> root2 \<in> set [rewiredModule, rewiredModuleAfter] | _ \<Rightarrow> True)
        (walk root)) [rewiredModule, rewiredModuleAfter]"
  by code_simp

lemma rewired_kinds:
  "list_all (\<lambda>root. list_all (\<lambda>op.
        fst (getName op) \<noteq> ShapeDialect \<and> fst (getName op) \<noteq> SCFDialect) (walk root))
     [rewiredModule, rewiredModuleAfter]"
  by code_simp

text \<open>
  The run of \<open>rewiredModule\<close> is the same with every upstream catalogue whose patterns
  report "no match" on the operations of the module that are not Legal.
\<close>

lemma rewired_run_for_every_upstream:
  assumes "\<forall>root \<in> set [rewiredModule, rewiredModuleAfter]. \<forall>op \<in> set (walk root).
        legality (configureTarget True [] []) op = Legal
        \<or> (\<forall>pattern \<in> set (upstreamPatterns upstream). declines pattern root op)"
  shows "runOnOperation True upstream 2 rewiredModule = Some (Inr (False, rewiredModuleAfter))"
  using runOnOperation_upstream [OF rewired_closed rewired_kinds assms, of rewiredModule 2]
    rewired_run
  by simp

lemma insistent_sweep:
  "sweep (configureTarget True [] []) (populatePatterns insistentUpstream)
      (map opId (walk rewiredModule)) rewiredModule False = Inr (rewiredModuleAfter, True)"
  "sweep (configureTarget True [] []) (populatePatterns insistentUpstream)
      (map opId (walk rewiredModuleAfter)) rewiredModuleAfter False
     = Inr (rewiredModuleAfter, True)"
  by code_simp+

text \<open>With a pattern that reports success each time it is tried, no sweep is the last.\<close>

lemma insistent_never_reaches_fixpoint:
  "runOnOperation True insistentUpstream fuel rewiredModule = None"
proof -
  let ?T = "configureTarget True [] []"
  let ?P = "populatePatterns insistentUpstream"
  have after: "fixpoint n ?T ?P rewiredModuleAfter = None" for n
    by (induction n) (simp_all add: insistent_sweep)
  have "fixpoint fuel ?T ?P rewiredModule = None"
    by (cases fuel) (simp_all add: insistent_sweep after)
  then show ?thesis
    by (simp add: runOnOperation_def applyPartialConversion_def Let_def insistentUpstream_def
        noUpstream_def)
qed

lemma nested_run:
  "runOnOperation True noUpstream 2 nestedConstantModule
     = Some (Inr (False, nestedConstantModuleAfter))"
  "runOnOperation False noUpstream 2 nestedConstantModule
     = Some (Inr (True, nestedConstantModuleAfter))"
  by code_simp+

lemma nested_closed:
  "list_all (\<lambda>root. list_all (\<lambda>op.
        case legalize (configureTarget True [] []) (populatePatterns noUpstream) root op of
          Inr (Some root2) \<Rightarrow> root2 \<in> set [nestedConstantModule, nestedConstantModuleAfter]
        | _ \<Rightarrow> True)
        (walk root)) [nestedConstantModule, nestedConstantModuleAfter]"
  "list_all (\<lambda>root. list_all (\<lambda>op.
        case legalize (configureTarget False [] []) (populatePatterns noUpstream) root op of
          Inr (Some root2) \<Rightarrow> root2 \<in> set [nestedConstantModule, nestedConstantModuleAfter]
        | _ \<Rightarrow> True)
        (walk root)) [nestedConstantModule, nestedConstantModuleAfter]"
  by code_simp+

lemma nested_kinds:
  "list_all (\<lambda>root. list_all (\<lambda>op.
        fst (getName op) \<noteq> ShapeDialect \<and> fst (getName op) \<noteq> SCFDialect) (walk root))
     [nestedConstantModule, nestedConstantModuleAfter]"
  by code_simp

lemma nested_run_for_every_upstream:
  assumes "\<forall>root \<in> set [nestedConstantModule, nestedConstantModuleAfter].
        \<forall>op \<in> set (walk root).
          legality (configureTarget ap [] []) op = Legal
          \<or> (\<forall>pattern \<in> set (upstreamPatterns upstream). declines pattern root op)"
  shows "runOnOperation ap upstream 2 nestedConstantModule
           = Some (Inr (\<not> ap, nestedConstantModuleAfter))"
proof (cases ap)
  case True
  with assms runOnOperation_upstream [OF nested_closed(1) nested_kinds, of upstream
      nestedConstantModule 2] nested_run(1)
  show ?thesis by simp
next
  case False
  with assms runOnOperation_upstream [OF nested_closed(2) nested_kinds, of upstream
      nestedConstantModule 2] nested_run(2)
  show ?thesis by simp
qed


lemma nested_fixpoint:
  "fixpoint 2 (configureTarget True [] []) (populatePatterns noUpstream) nestedConstantModule
     = Some (Inr nestedConstantModuleAfter)"
  by code_simp

section \<open>The legality rules of the pass\<close>

text \<open>
  Claim C5, as stated, fails in its last clause. The scalar constant \<open>nestedConstant\<close> of
  \<open>nestedConstantModule\<close> is Legal in both modes and no pattern is tried on it, yet it is
  not in the module that either mode leaves: it is nested in the operation that defines
  the destination of an unranked store, and the rewrite of lines 67-68, fired on the
  store, erases that operation with all it contains.
\<close>

theorem scalar_constant_erased_with_store_destination:
  "nestedConstant \<in> set (walk nestedConstantModule)
   \<and> getName nestedConstant = ConstantOp
   \<and> hasConstantSignature nestedConstant
   \<and> getResultTypes nestedConstant = [OtherType ''i32'']
   \<and> legality (configureTarget True [] []) nestedConstant = Legal
   \<and> legality (configureTarget False [] []) nestedConstant = Legal
   \<and> legalize (configureTarget True [] []) (populatePatterns noUpstream) nestedConstantModule
        nestedConstant = Inr None
   \<and> legalize (configureTarget False [] []) (populatePatterns noUpstream) nestedConstantModule
        nestedConstant = Inr None
   \<and> legalize (configureTarget True [] []) (populatePatterns noUpstream) nestedConstantModule
        nestedStore = Inr (Some nestedConstantModuleAfter)
   \<and> legalize (configureTarget False [] []) (populatePatterns noUpstream) nestedConstantModule
        nestedStore = Inr (Some nestedConstantModuleAfter)
   \<and> runOnOperation True noUpstream 2 nestedConstantModule
        = Some (Inr (False, nestedConstantModuleAfter))
   \<and> runOnOperation False noUpstream 2 nestedConstantModule
        = Some (Inr (True, nestedConstantModuleAfter))
   \<and> nestedConstant \<notin> set (walk nestedConstantModuleAfter)
   \<and> list_all (\<lambda>x. opId x \<noteq> opId nestedConstant) (walk nestedConstantModuleAfter)"
  by code_simp

text \<open>
  Claim C5, amended. A constant or select operation is classified Legal if and only if
  none of its result types is a tensor type. The rule in force for both kinds is the one
  of lines 141-142, which replaces that of lines 121-124 and also looks at the operand
  types; on an operation with the signature of its kind the two agree. An operation of
  either kind without tensor result, such as a scalar constant, is Legal and the driver
  tries no pattern on it, in both modes. The module at the fixpoint is the input after the
  commits of the patterns fired on other operations, and the operation is in it as it was
  unless one of their rewrites replaces it or an operation that contains it, or changes it
  (a rewired operand); no rewrite changes an operation without operands and regions, so a
  constant is either left untouched or erased, alone or with an operation around it.
\<close>

theorem constant_select_legal_iff_no_tensor_result:
  assumes "getName op = ConstantOp \<and> hasConstantSignature op
           \<or> getName op = SelectOp \<and> hasSelectSignature op"
  shows "(legality (configureTarget allow_partial_bufferization sh scf) op = Legal)
           = (\<not> list_ex isaTensorType (getResultTypes op))
         \<and> (\<not> list_ex isaTensorType (getResultTypes op) \<longrightarrow>
              legalize (configureTarget allow_partial_bufferization sh scf) patterns root op
                = Inr None)
         \<and> ((\<forall>pattern \<in> set patterns. recordsOnly pattern)
              \<and> fixpoint fuel (configureTarget allow_partial_bufferization sh scf) patterns root
                  = Some (Inr root') \<longrightarrow>
              (\<exists>logs. commits (configureTarget allow_partial_bufferization sh scf) patterns
                         root logs root'
                 \<and> root' = fold applyRewrite (concat logs) root
                 \<and> (op \<in> set (walkWithout (replacedIds (concat logs)) root)
                      \<and> (\<forall>r \<in> set (concat logs). applyRewrite r op = op)
                    \<longrightarrow> op \<in> set (walk root'))))
         \<and> (getOperands op = [] \<and> getRegions op = [] \<longrightarrow> (\<forall>r. applyRewrite r op = op))"
proof -
  let ?T = "configureTarget allow_partial_bufferization sh scf"
  have name: "getName op \<in> {ConstantOp, SelectOp, CallOp, DimOp, RankOp, ReturnOp}"
    using assms by auto
  have types: "typesAreLegal op = (\<not> list_ex isaTensorType (getResultTypes op))"
    using assms typesAreLegal_constant typesAreLegal_select by blast
  have iff: "(legality ?T op = Legal) = (\<not> list_ex isaTensorType (getResultTypes op))"
    by (simp add: legality_std_dynamic [OF name] types)
  have none: "\<not> list_ex isaTensorType (getResultTypes op) \<longrightarrow>
      legalize ?T patterns root op = Inr None"
    using iff legalize_Legal by blast
  have run: "(\<forall>pattern \<in> set patterns. recordsOnly pattern)
      \<and> fixpoint fuel ?T patterns root = Some (Inr root') \<longrightarrow>
      (\<exists>logs. commits ?T patterns root logs root'
         \<and> root' = fold applyRewrite (concat logs) root
         \<and> (op \<in> set (walkWithout (replacedIds (concat logs)) root)
              \<and> (\<forall>r \<in> set (concat logs). applyRewrite r op = op)
            \<longrightarrow> op \<in> set (walk root')))"
  proof
    assume a: "(\<forall>pattern \<in> set patterns. recordsOnly pattern)
      \<and> fixpoint fuel ?T patterns root = Some (Inr root')"
    then obtain logs where c: "commits ?T patterns root logs root'"
      using fixpoint_trace [of patterns fuel ?T root root'] by blast
    from commits_fold [OF c] c
    have l: "root' = fold applyRewrite (concat logs) root" "commits ?T patterns root logs root'"
      by blast+
    have "op \<in> set (walkWithout (replacedIds (concat logs)) root)
              \<and> (\<forall>r \<in> set (concat logs). applyRewrite r op = op)
            \<longrightarrow> op \<in> set (walk root')"
      using preserved_fold [of op "concat logs" "[]" root] l(1)
      by (simp add: walkWithout_Nil)
    with l show "\<exists>logs. commits ?T patterns root logs root'
         \<and> root' = fold applyRewrite (concat logs) root
         \<and> (op \<in> set (walkWithout (replacedIds (concat logs)) root)
              \<and> (\<forall>r \<in> set (concat logs). applyRewrite r op = op)
            \<longrightarrow> op \<in> set (walk root'))"
      by blast
  qed
  have leaf: "getOperands op = [] \<and> getRegions op = [] \<longrightarrow> (\<forall>r. applyRewrite r op = op)"
    using applyRewrite_leaf by blast
  from iff none run leaf show ?thesis by blast
qed

theorem constant_select_legal_iff_no_tensor_result_witness:
  "legality (configureTarget False [] []) scalarConstant = Legal
   \<and> legalize (configureTarget False [] []) (populatePatterns noUpstream) constantModule
        scalarConstant = Inr None
   \<and> legalize (configureTarget True [] []) (populatePatterns noUpstream) constantModule
        scalarConstant = Inr None
   \<and> legality (configureTarget False [] []) tensorConstant \<noteq> Legal
   \<and> legality (configureTarget True [] []) tensorSelect \<noteq> Legal
   \<and> runOnOperation False noUpstream 1 constantModule = Some (Inr (False, constantModule))
   \<and> runOnOperation True noUpstream 1 constantModule = Some (Inr (False, constantModule))
   \<and> fixpoint 2 (configureTarget True [] []) (populatePatterns noUpstream) nestedConstantModule
        = Some (Inr nestedConstantModuleAfter)
   \<and> (\<exists>logs. commits (configureTarget True [] []) (populatePatterns noUpstream)
                nestedConstantModule logs nestedConstantModuleAfter
         \<and> nestedConstantModuleAfter = fold applyRewrite (concat logs) nestedConstantModule
         \<and> (survivingConstant \<in> set (walkWithout (replacedIds (concat logs)) nestedConstantModule)
              \<and> (\<forall>r \<in> set (concat logs). applyRewrite r survivingConstant = survivingConstant)
            \<longrightarrow> survivingConstant \<in> set (walk nestedConstantModuleAfter)))
   \<and> (\<forall>r. applyRewrite r survivingConstant = survivingConstant)
   \<and> survivingConstant \<in> set (walk nestedConstantModuleAfter)"
proof -
  have r1: "runOnOperation False noUpstream 1 constantModule = Some (Inr (False, constantModule))"
    by code_simp
  have r2: "runOnOperation True noUpstream 1 constantModule = Some (Inr (False, constantModule))"
    by code_simp
  have s: "survivingConstant \<in> set (walk nestedConstantModuleAfter)" by code_simp
  have h: "getName survivingConstant = ConstantOp \<and> hasConstantSignature survivingConstant
           \<or> getName survivingConstant = SelectOp \<and> hasSelectSignature survivingConstant"
    by (simp add: survivingConstant_def hasConstantSignature_def)
  have o: "getOperands survivingConstant = [] \<and> getRegions survivingConstant = []"
    by (simp add: survivingConstant_def)
  note t = constant_select_legal_iff_no_tensor_result [OF h, where
      allow_partial_bufferization = True and sh = "[]" and scf = "[]"
      and patterns = "populatePatterns noUpstream" and root = nestedConstantModule
      and fuel = 2 and root' = nestedConstantModuleAfter]
  from t recordsOnly_noUpstream nested_fixpoint
  have run: "\<exists>logs. commits (configureTarget True [] []) (populatePatterns noUpstream)
                nestedConstantModule logs nestedConstantModuleAfter
         \<and> nestedConstantModuleAfter = fold applyRewrite (concat logs) nestedConstantModule
         \<and> (survivingConstant \<in> set (walkWithout (replacedIds (concat logs)) nestedConstantModule)
              \<and> (\<forall>r \<in> set (concat logs). applyRewrite r survivingConstant = survivingConstant)
            \<longrightarrow> survivingConstant \<in> set (walk nestedConstantModuleAfter))"
    by blast
  from t o have leaf: "\<forall>r. applyRewrite r survivingConstant = survivingConstant" by blast
  have rest: "legality (configureTarget False [] []) scalarConstant = Legal
   \<and> legalize (configureTarget False [] []) (populatePatterns noUpstream) constantModule
        scalarConstant = Inr None
   \<and> legalize (configureTarget True [] []) (populatePatterns noUpstream) constantModule
        scalarConstant = Inr None
   \<and> legality (configureTarget False [] []) tensorConstant \<noteq> Legal
   \<and> legality (configureTarget True [] []) tensorSelect \<noteq> Legal"
    using
      constant_select_legal_iff_no_tensor_result [of scalarConstant False "[]" "[]"
        "populatePatterns noUpstream" constantModule]
      constant_select_legal_iff_no_tensor_result [of scalarConstant True "[]" "[]"
        "populatePatterns noUpstream" constantModule]
      constant_select_legal_iff_no_tensor_result [of tensorConstant False "[]" "[]"]
      constant_select_legal_iff_no_tensor_result [of tensorSelect True "[]" "[]"]
    by (simp add: hasConstantSignature_def hasSelectSignature_def scalarConstant_def
        tensorConstant_def tensorSelect_def f32_def)
  from rest r1 r2 nested_fixpoint run leaf s show ?thesis by blast
qed

text \<open>
  Claim C6. \<^verbatim>\<open>TensorLoadOp\<close> and \<^verbatim>\<open>TensorToMemrefOp\<close> are registered illegal if and
  only if \<open>allow_partial_bufferization\<close> is false; with the flag set they have no
  illegality registration and fall under the legal Standard dialect.
\<close>

theorem tensor_load_to_memref_illegal_iff_not_partial:
  "(TensorLoadOp \<in> set (illegalOps (configureTarget allow_partial_bufferization sh scf)))
     = (\<not> allow_partial_bufferization)
   \<and> (TensorToMemrefOp \<in> set (illegalOps (configureTarget allow_partial_bufferization sh scf)))
     = (\<not> allow_partial_bufferization)
   \<and> legality (configureTarget allow_partial_bufferization sh scf)
       (Operation i TensorLoadOp os rs a regs)
     = (if allow_partial_bufferization then Legal else Illegal)
   \<and> legality (configureTarget allow_partial_bufferization sh scf)
       (Operation i TensorToMemrefOp os rs a regs)
     = (if allow_partial_bufferization then Legal else Illegal)"
  by (simp add: legality_def configureTarget_dynamicLegality configureTarget_illegalOps
      configureTarget_illegalDialects configureTarget_legalOps configureTarget_legalDialects
      opname_defs)

text \<open>
  Claim C7. A \<^verbatim>\<open>TensorStoreOp\<close> is classified Legal if and only if the type of the stored
  value is not an unranked tensor type, and Illegal otherwise; the rule of its kind decides,
  although its dialect is registered legal as a whole. The unranked-store erasure pattern
  is registered for the kind.
\<close>

theorem tensor_store_legal_iff_not_unranked:
  "legality (configureTarget allow_partial_bufferization sh scf)
       (Operation i TensorStoreOp (t # m # rest) rs a regs)
     = (if isaUnrankedTensorType (getType t) then Illegal else Legal)
   \<and> fst TensorStoreOp \<in> set (legalDialects (configureTarget allow_partial_bufferization sh scf))
   \<and> UnrankedTensorStoreTestOnlyPattern \<in> set (populatePatterns upstream)
   \<and> rootKind UnrankedTensorStoreTestOnlyPattern = TensorStoreOp"
  by (simp add: legality_def configureTarget_dynamicLegality configureTarget_legalDialects
      opname_defs tensorStoreIsLegal_def tensor_def populatePatterns_def
      UnrankedTensorStoreTestOnlyPattern_def)

text \<open>
  Claim C8. A \<^verbatim>\<open>FuncOp\<close> is classified Legal if and only if \<^verbatim>\<open>convertType\<close> leaves
  unchanged every input type and every result type of its function type and every type
  that appears inside its body region.
\<close>

theorem func_legal_iff_types_in_target_form:
  "(legality (configureTarget allow_partial_bufferization sh scf)
       (Operation i FuncOp os rs (Some (inputs, results)) (body # rest)) = Legal)
     = (list_all (\<lambda>t. convertType t = t) inputs
        \<and> list_all (\<lambda>t. convertType t = t) results
        \<and> list_all (\<lambda>t. convertType t = t) (concat (map typesInBlock body)))"
  by (simp add: legality_def configureTarget_dynamicLegality opname_defs funcIsLegal_def
      isLegalRegion_def isLegalTypes_def isLegal_eq)

text \<open>
  Claim C10. \<^verbatim>\<open>ModuleOp\<close> and \<^verbatim>\<open>ModuleTerminatorOp\<close> are registered legal in both
  modes and every such operation is classified Legal; the driver's legalization of the
  module operation neither rewrites nor fails, and no committed rewrite removes or renames
  the root of the module.
\<close>

theorem module_and_terminator_always_legal:
  "legality (configureTarget allow_partial_bufferization sh scf)
       (Operation i ModuleOp os rs a regs) = Legal
   \<and> legality (configureTarget allow_partial_bufferization sh scf)
       (Operation i ModuleTerminatorOp os rs a regs) = Legal
   \<and> ModuleOp \<in> set (legalOps (configureTarget allow_partial_bufferization sh scf))
   \<and> ModuleTerminatorOp \<in> set (legalOps (configureTarget allow_partial_bufferization sh scf))
   \<and> legalize (configureTarget allow_partial_bufferization sh scf) patterns root
       (Operation i ModuleOp os rs a regs) = Inr None
   \<and> opId (applyRewrites rewriter) = opId (module rewriter)
   \<and> getName (applyRewrites rewriter) = getName (module rewriter)"
proof -
  have l: "legality (configureTarget allow_partial_bufferization sh scf)
       (Operation i ModuleOp os rs a regs) = Legal"
    by (simp add: legality_def configureTarget_dynamicLegality configureTarget_illegalOps
        configureTarget_illegalDialects configureTarget_legalOps opname_defs)
  have t: "legality (configureTarget allow_partial_bufferization sh scf)
       (Operation i ModuleTerminatorOp os rs a regs) = Legal"
    by (simp add: legality_def configureTarget_dynamicLegality configureTarget_illegalOps
        configureTarget_illegalDialects configureTarget_legalOps opname_defs)
  show ?thesis
    using l t legalize_Legal [OF l] fold_applyRewrite_root
    by (simp add: applyRewrites_def configureTarget_legalOps)
qed

section \<open>The unranked-store erasure pattern\<close>

text \<open>
  Claim C9. The rewrite of the unranked-store erasure pattern dereferences the defining
  operation of the destination without a null check: on a store whose destination is a
  block argument it ends in a null dereference, and on no input does it report "no match".
\<close>

theorem unranked_store_pattern_unchecked_defining_op:
  "(memref op = Some (BlockArgument b k ty) \<longrightarrow>
      UnrankedTensorStoreTestOnlyPattern_matchAndRewrite op operands rewriter
        = Inl NullDereference)
   \<and> (\<forall>rewriter'. UnrankedTensorStoreTestOnlyPattern_matchAndRewrite op operands rewriter
          \<noteq> Inr (failure, rewriter'))"
  by (auto simp add: UnrankedTensorStoreTestOnlyPattern_matchAndRewrite_def memref_def tensor_def
      split: option.splits sum.splits list.splits)

theorem unranked_store_pattern_unchecked_defining_op_witness:
  "memref storeIntoArgument = Some (BlockArgument 1 1 (UnrankedMemRefType f32))
   \<and> UnrankedTensorStoreTestOnlyPattern_matchAndRewrite storeIntoArgument
        (getOperands storeIntoArgument) \<lparr>module = storeIntoArgumentModule, log = []\<rparr>
      = Inl NullDereference
   \<and> runOnOperation True noUpstream 3 storeIntoArgumentModule = Some (Inl NullDereference)"
proof -
  have "runOnOperation True noUpstream 3 storeIntoArgumentModule = Some (Inl NullDereference)"
    by code_simp
  then show ?thesis
    using unranked_store_pattern_unchecked_defining_op [of storeIntoArgument 1 1
      "UnrankedMemRefType f32" "getOperands storeIntoArgument"
      "\<lparr>module = storeIntoArgumentModule, log = []\<rparr>"]
    by (simp add: memref_def storeIntoArgument_def)
qed

text \<open>
  Claim C2, as stated, fails: the pattern has no match condition. In \<open>otherUseModule\<close> the
  destination of the store is also an operand of the call; the pattern still reports
  success, and the driver commits the rewrite, which erases the cast and the store and
  rewires the call to the stored tensor.
\<close>

theorem unranked_store_pattern_fires_despite_other_use:
  "OpResult 2 0 (UnrankedMemRefType f32)
      \<in> set (getOperands (Operation 5 CallOp [OpResult 2 0 (UnrankedMemRefType f32)] [] None []))
   \<and> Operation 5 CallOp [OpResult 2 0 (UnrankedMemRefType f32)] [] None []
        \<in> set (walk otherUseModule)
   \<and> memref otherUseStore = Some (OpResult 2 0 (UnrankedMemRefType f32))
   \<and> otherUseStore \<in> set (walk otherUseModule)
   \<and> legalize (configureTarget True [] []) (populatePatterns noUpstream) otherUseModule
        otherUseStore = Inr (Some otherUseModuleAfter)
   \<and> UnrankedTensorStoreTestOnlyPattern_matchAndRewrite otherUseStore
          (getOperands otherUseStore) \<lparr>module = otherUseModule, log = []\<rparr>
        = Inr (success, \<lparr>module = otherUseModule,
             log = [ReplaceOp 2 [OpResult 2 0 (UnrankedMemRefType f32)]
                      [OpResult 3 0 (UnrankedTensorType f32)], ReplaceOp 4 [] []]\<rparr>)"
  by code_simp

text \<open>
  Claim C2, amended. The unranked-store erasure pattern has no match condition of its
  own: on a store whose destination is the one result of an operation of the module it
  reports success whatever other uses the destination has and whether or not the stored
  tensor is unranked; committed, the rewrite rewires every use of that result to the
  stored tensor and erases both operations. That it runs on unranked stores only is the
  work of the legality target: a store of any other value is Legal, and the driver does
  not try a pattern on it.
\<close>

theorem unranked_store_pattern_has_no_match_condition:
  assumes "getOperands st = t # m # rest" "getDefiningOp m = Some a" "findOp a root = Some A"
    "length (getResultTypes A) = 1" "findOp (opId st) root = Some st" "getResultTypes st = []"
  shows "UnrankedTensorStoreTestOnlyPattern_matchAndRewrite st operands \<lparr>module = root, log = lg\<rparr>
           = Inr (success, \<lparr>module = root,
                log = lg @ [ReplaceOp a (getResults A) [t], ReplaceOp (opId st) [] []]\<rparr>)
         \<and> applyRewrites \<lparr>module = root,
                log = [ReplaceOp a (getResults A) [t], ReplaceOp (opId st) [] []]\<rparr>
             = eraseOp (opId st) (eraseOp a (mapOperands (replaceValue (getResults A) [t]) root))
         \<and> (getName st = TensorStoreOp \<and> \<not> isaUnrankedTensorType (getType t) \<longrightarrow>
              legalize (configureTarget ap sh scf) patterns root st = Inr None)"
proof -
  have "getName st = TensorStoreOp \<Longrightarrow> \<not> isaUnrankedTensorType (getType t) \<Longrightarrow>
      legality (configureTarget ap sh scf) st = Legal"
    using assms(1)
    by (simp add: legality_def configureTarget_dynamicLegality opname_defs
        tensorStoreIsLegal_def tensor_def)
  moreover have "applyRewrites \<lparr>module = root,
                log = [ReplaceOp a (getResults A) [t], ReplaceOp (opId st) [] []]\<rparr>
             = eraseOp (opId st) (eraseOp a (mapOperands (replaceValue (getResults A) [t]) root))"
    by (simp add: applyRewrites_def replaceValue_Nil mapOperands_id)
  ultimately show ?thesis
    using store_pattern_success [OF assms] legalize_Legal by blast
qed

theorem unranked_store_pattern_has_no_match_condition_witness:
  "UnrankedTensorStoreTestOnlyPattern_matchAndRewrite otherUseStore (getOperands otherUseStore)
      \<lparr>module = otherUseModule, log = []\<rparr>
    = Inr (success, \<lparr>module = otherUseModule,
         log = [ReplaceOp 2 [OpResult 2 0 (UnrankedMemRefType f32)]
                  [OpResult 3 0 (UnrankedTensorType f32)], ReplaceOp 4 [] []]\<rparr>)"
proof -
  have 1: "findOp 2 otherUseModule = Some otherUseCast" by code_simp
  have 2: "findOp (opId otherUseStore) otherUseModule = Some otherUseStore" by code_simp
  show ?thesis
    using unranked_store_pattern_has_no_match_condition [of otherUseStore "OpResult 3 0 (UnrankedTensorType f32)"
        "OpResult 2 0 (UnrankedMemRefType f32)" "[]" 2 otherUseModule otherUseCast
        "getOperands otherUseStore" "[]"] 1 2
    by (simp add: otherUseStore_def otherUseCast_def getResults_def)
qed

text \<open>
  Claim C3. When the unranked-store erasure pattern fires on a store, run by the driver
  on the operands it presents, the rewrite replaces every use of the destination,
  anywhere in the module, with the source operand so presented (the rewrite reads it from
  the operation; the pattern is registered without a type converter, so that is the
  operand presented), erases the operation that defines the destination and the store
  itself, and replaces the store with no results: the module afterwards consists of the
  operations outside those two, in their order, with the destination replaced by the
  source in their operands. The destination is taken to be a result of the operation that
  its use names, and neither of the two operations to be the root of the module.
\<close>

theorem unranked_store_pattern_rewrite:
  assumes presented:
      "remapOperands UnrankedTensorStoreTestOnlyPattern st \<lparr>module = root, log = []\<rparr>
         = (operands, rewriter)"
    and fires:
      "matchAndRewrite UnrankedTensorStoreTestOnlyPattern st operands rewriter
         = Inr (success, rewriter')"
    and destination: "memref st = Some m" "getDefiningOp m = Some a" "findOp a root = Some A"
      "m \<in> set (getResults A)"
    and root: "opId root \<noteq> a" "opId root \<noteq> opId st"
  shows "log rewriter' = [ReplaceOp a [m] [operands ! 0], ReplaceOp (opId st) [] []]
         \<and> map (\<lambda>y. (opId y, getName y, getResultTypes y, getOperands y))
               (walk (applyRewrites rewriter'))
             = map (\<lambda>z. (opId z, getName z, getResultTypes z,
                         map (\<lambda>v. if v = m then operands ! 0 else v) (getOperands z)))
                 (walkWithout [a, opId st] root)
         \<and> (\<forall>y \<in> set (walk (applyRewrites rewriter')).
               opId y \<noteq> a \<and> opId y \<noteq> opId st
             \<and> (operands ! 0 \<noteq> m \<longrightarrow> m \<notin> set (getOperands y)))"
proof -
  have p: "operands = getOperands st" "rewriter = \<lparr>module = root, log = []\<rparr>"
    using presented by (simp_all add: remapOperands_def UnrankedTensorStoreTestOnlyPattern_def)
  from fires have "UnrankedTensorStoreTestOnlyPattern_matchAndRewrite st operands rewriter
             = Inr (success, rewriter')"
    by (simp add: UnrankedTensorStoreTestOnlyPattern_def)
  from store_pattern_fires [OF this] obtain t m' rest a' A' where f:
    "getOperands st = t # m' # rest" "getDefiningOp m' = Some a'"
    "findOp a' (module rewriter) = Some A'" "length (getResultTypes A') = 1"
    "rewriter' = rewriter\<lparr>log := log rewriter
               @ [ReplaceOp a' (getResults A') [t], ReplaceOp (opId st) [] []]\<rparr>"
    by blast
  have m: "m' = m" using f(1) destination(1) by (simp add: memref_def)
  then have a: "a' = a" using f(2) destination(2) by simp
  then have A: "A' = A" using f(3) destination(3) p(2) by simp
  have "length (getResults A) = 1" using f(4) A by (simp add: getResults_def)
  then obtain x where "getResults A = [x]"
    by (cases "getResults A") simp_all
  with destination(4) have res: "getResults A = [m]" by simp
  have t: "operands ! 0 = t" using p(1) f(1) by simp
  let ?rw = "\<lparr>module = root, log = [ReplaceOp a [m] [t], ReplaceOp (opId st) [] []]\<rparr>"
  have rw: "rewriter' = ?rw" using f(5) a A res p(2) by simp
  have all: "\<forall>y \<in> set (walk (applyRewrites ?rw)).
               opId y \<noteq> a \<and> opId y \<noteq> opId st
             \<and> (t \<noteq> m \<longrightarrow> m \<notin> set (getOperands y))"
  proof
    fix y
    assume "y \<in> set (walk (applyRewrites ?rw))"
    then have y: "y \<in> set (walk (eraseOp (opId st) (eraseOp a
        (mapOperands (\<lambda>v. if v = m then t else v) root))))"
      by (simp only: store_rewrite_applied)
    from store_rewrite_survivors [OF y root]
    obtain z where z: "opId y \<noteq> a" "opId y \<noteq> opId st"
      "getOperands y = map (\<lambda>v. if v = m then t else v) (getOperands z)"
      by blast
    from z(3) have "t \<noteq> m \<longrightarrow> m \<notin> set (getOperands y)" by auto
    with z show "opId y \<noteq> a \<and> opId y \<noteq> opId st
             \<and> (t \<noteq> m \<longrightarrow> m \<notin> set (getOperands y))"
      by blast
  qed
  show ?thesis
    unfolding t rw
  proof (intro conjI)
    show "log ?rw = [ReplaceOp a [m] [t], ReplaceOp (opId st) [] []]" by simp
    show "map (\<lambda>y. (opId y, getName y, getResultTypes y, getOperands y))
               (walk (applyRewrites ?rw))
             = map (\<lambda>z. (opId z, getName z, getResultTypes z,
                         map (\<lambda>v. if v = m then t else v) (getOperands z)))
                 (walkWithout [a, opId st] root)"
      by (simp add: store_rewrite_applied walk_after_two_erasures comp_def)
    show "\<forall>y \<in> set (walk (applyRewrites ?rw)).
               opId y \<noteq> a \<and> opId y \<noteq> opId st
             \<and> (t \<noteq> m \<longrightarrow> m \<notin> set (getOperands y))"
      by (rule all)
  qed
qed

theorem unranked_store_pattern_rewrite_witness:
  "matchAndRewrite UnrankedTensorStoreTestOnlyPattern otherUseStore
       (getOperands otherUseStore) \<lparr>module = otherUseModule, log = []\<rparr>
     = Inr (success, otherUseRewriter)
   \<and> applyRewrites otherUseRewriter = otherUseModuleAfter
   \<and> map (\<lambda>y. (opId y, getOperands y)) (walk otherUseModuleAfter)
       = map (\<lambda>z. (opId z, map (\<lambda>v. if v = OpResult 2 0 (UnrankedMemRefType f32)
                                       then OpResult 3 0 (UnrankedTensorType f32) else v)
                             (getOperands z)))
           (walkWithout [2, 4] otherUseModule)
   \<and> list_all (\<lambda>y. opId y \<noteq> 2 \<and> opId y \<noteq> 4
          \<and> OpResult 2 0 (UnrankedMemRefType f32) \<notin> set (getOperands y))
        (walk otherUseModuleAfter)"
proof -
  have 1: "remapOperands UnrankedTensorStoreTestOnlyPattern otherUseStore
       \<lparr>module = otherUseModule, log = []\<rparr>
     = (getOperands otherUseStore, \<lparr>module = otherUseModule, log = []\<rparr>)"
    by (simp add: remapOperands_def UnrankedTensorStoreTestOnlyPattern_def)
  have 2: "matchAndRewrite UnrankedTensorStoreTestOnlyPattern otherUseStore
       (getOperands otherUseStore) \<lparr>module = otherUseModule, log = []\<rparr>
     = Inr (success, otherUseRewriter)"
    by code_simp
  have 3: "memref otherUseStore = Some (OpResult 2 0 (UnrankedMemRefType f32))" by code_simp
  have 4: "getDefiningOp (OpResult 2 0 (UnrankedMemRefType f32)) = Some 2" by simp
  have 5: "findOp 2 otherUseModule = Some otherUseCast" by code_simp
  have 6: "OpResult 2 0 (UnrankedMemRefType f32) \<in> set (getResults otherUseCast)" by code_simp
  have 7: "opId otherUseModule \<noteq> 2" "opId otherUseModule \<noteq> opId otherUseStore"
    by (simp_all add: otherUseModule_def otherUseStore_def)
  have 8: "applyRewrites otherUseRewriter = otherUseModuleAfter" by code_simp
  have 9: "getOperands otherUseStore ! 0 = OpResult 3 0 (UnrankedTensorType f32)"
    "opId otherUseStore = 4"
    by (simp_all add: otherUseStore_def)
  have "map (\<lambda>y. (opId y, getOperands y)) (walk otherUseModuleAfter)
       = map (\<lambda>z. (opId z, map (\<lambda>v. if v = OpResult 2 0 (UnrankedMemRefType f32)
                                       then OpResult 3 0 (UnrankedTensorType f32) else v)
                             (getOperands z)))
           (walkWithout [2, 4] otherUseModule)"
    by code_simp
  with unranked_store_pattern_rewrite [OF 1 2 3 4 5 6 7] 2 8 show ?thesis
    by (simp add: 8 9 list_all_iff)
qed

section \<open>The driver and the pass\<close>




text \<open>
  Claim C4. In full mode, when the driver has reached its fixpoint, the pass signals
  failure if and only if some operation of the module is still classified Illegal or
  Unknown, and the module it leaves is the module at the fixpoint, rewrites included:
  nothing is rolled back. The pass itself signals failure exactly when
  \<^verbatim>\<open>applyFullConversion\<close> reports one.
\<close>

theorem full_mode_failure_without_rollback:
  assumes "fixpoint fuel (configureTarget False (ShapeLegality upstream) (SCFLegality upstream))
             (populatePatterns upstream) root = Some (Inr root')"
  shows "runOnOperation False upstream fuel root =
           Some (Inr (list_ex (\<lambda>op. legality (configureTarget False (ShapeLegality upstream)
                                  (SCFLegality upstream)) op = Illegal
                              \<or> legality (configureTarget False (ShapeLegality upstream)
                                  (SCFLegality upstream)) op = Unknown) (walk root'), root'))
         \<and> (\<forall>root''. (runOnOperation False upstream fuel root = Some (Inr (True, root'')))
              = (applyFullConversion fuel root
                   (configureTarget False (ShapeLegality upstream) (SCFLegality upstream))
                   (populatePatterns upstream) = Some (Inr (failure, root''))))"
proof -
  let ?T = "configureTarget False (ShapeLegality upstream) (SCFLegality upstream)"
  let ?bad = "list_ex (\<lambda>op. legality ?T op = Illegal \<or> legality ?T op = Unknown) (walk root')"
  have run: "runOnOperation False upstream fuel root =
      Some (Inr (failed (if list_all (\<lambda>op. legality ?T op = Legal) (walk root')
                         then success else failure), root'))"
    using assms by (simp add: runOnOperation_def applyFullConversion_def Let_def)
  have first: "runOnOperation False upstream fuel root = Some (Inr (?bad, root'))"
  proof (cases "list_all (\<lambda>op. legality ?T op = Legal) (walk root')")
    case True
    then have "\<not> ?bad" by (auto simp add: list_all_iff list_ex_iff)
    with True run show ?thesis by (simp add: failed_def)
  next
    case False
    then obtain op where "op \<in> set (walk root')" "legality ?T op \<noteq> Legal"
      by (auto simp add: list_all_iff)
    then have "?bad" unfolding list_ex_iff not_Legal by blast
    with False run show ?thesis by (simp add: failed_def)
  qed
  have "\<forall>root''. (runOnOperation False upstream fuel root = Some (Inr (True, root'')))
              = (applyFullConversion fuel root ?T (populatePatterns upstream)
                   = Some (Inr (failure, root'')))"
    by (simp add: runOnOperation_full failed_iff)
  with first show ?thesis by blast
qed

theorem full_mode_failure_without_rollback_witness:
  "runOnOperation False noUpstream 3 exampleModule = Some (Inr (True, exampleModuleAfter))
   \<and> exampleModuleAfter \<noteq> exampleModule"
proof -
  have "list_ex (\<lambda>op. legality (configureTarget False [] []) op = Illegal
                    \<or> legality (configureTarget False [] []) op = Unknown)
          (walk exampleModuleAfter)"
    by code_simp
  moreover have "exampleModuleAfter \<noteq> exampleModule" by code_simp
  ultimately show ?thesis
    using full_mode_failure_without_rollback [of 3 noUpstream exampleModule exampleModuleAfter] example_fixpoint_full
    by (simp add: noUpstream_def)
qed

end
